theory Spec2Isabelle
  imports Complex_Main
begin

section \<open>Double-precision values\<close>

text \<open>
  The C++ sources compute with \<^verbatim>\<open>double\<close>, the binary64 format of IEEE 754. A finite
  double is a real number; the infinities and the NaNs are lumped into \<open>NonFin\<close>, and
  the two zeros are one value. Every arithmetic operation is the exact operation
  followed by rounding to the nearest double, ties to the even significand
  (\<open>round_double\<close>): the doubles around a value of magnitude \<open>2^e \<le> |x| < 2^(e+1)\<close> are
  the multiples of \<open>2^(e-52)\<close>, those below \<open>2^-1022\<close> are the multiples of \<open>2^-1074\<close>,
  and a result that rounds to \<open>2^1024\<close> or beyond in magnitude is an infinity. Each
  operation of the source is rounded on its own (no fused multiply-add, no extended
  precision).

  In the expressions of the sources an operand that is an infinity or a NaN gives an
  infinity or a NaN again, so \<open>NonFin\<close> is absorbing. A comparison \<^verbatim>\<open>v == c\<close> with a
  finite constant \<open>c\<close> holds exactly when \<open>v = Fin c\<close>.

  Configuration numbers (gear ratios, motor limits), driver inputs and literals are
  finite doubles and are typed \<^typ>\<open>real\<close>; \<open>is_double\<close> says that a real number is a
  double.
\<close>

datatype double = Fin real | NonFin

text \<open>Rounding to the nearest integer, ties to even.\<close>

definition round_half_even :: "real \<Rightarrow> int" where
  "round_half_even x =
     (let f = \<lfloor>x\<rfloor>; d = x - of_int f
      in if d < 1 / 2 then f else if 1 / 2 < d then f + 1 else if even f then f else f + 1)"

text \<open>
  The binary exponent \<open>e\<close> with \<open>2^e \<le> |x| < 2^(e+1)\<close>, found by halving or doubling;
  the first argument bounds the number of steps (1100 is more than any magnitude
  between \<open>2^-1022\<close> and \<open>2^1024\<close> needs).
\<close>

fun binade :: "nat \<Rightarrow> real \<Rightarrow> int" where
  "binade 0 x = 0"
| "binade (Suc n) x =
     (if 2 \<le> \<bar>x\<bar> then binade n (x / 2) + 1
      else if \<bar>x\<bar> < 1 then binade n (x * 2) - 1
      else 0)"

text \<open>The exponent of the spacing of the doubles around \<open>x\<close>.\<close>

definition ulp_exponent :: "real \<Rightarrow> int" where
  "ulp_exponent x = (if \<bar>x\<bar> < 1 / 2 ^ 1022 then - 1074 else binade 1100 x - 52)"

definition round_double :: "real \<Rightarrow> double" where
  "round_double x =
     (if 2 ^ 1024 \<le> \<bar>x\<bar> then NonFin
      else let u = 2 powi ulp_exponent x;
               y = of_int (round_half_even (x / u)) * u
           in if 2 ^ 1024 \<le> \<bar>y\<bar> then NonFin else Fin y)"

definition is_double :: "real \<Rightarrow> bool" where
  "is_double x = (round_double x = Fin x)"

definition dneg :: "double \<Rightarrow> double" where
  "dneg a = (case a of Fin u \<Rightarrow> Fin (- u) | NonFin \<Rightarrow> NonFin)"

definition dsub :: "double \<Rightarrow> double \<Rightarrow> double" where
  "dsub a b =
     (case a of
        Fin u \<Rightarrow> (case b of Fin v \<Rightarrow> round_double (u - v) | NonFin \<Rightarrow> NonFin)
      | NonFin \<Rightarrow> NonFin)"

definition dmul :: "double \<Rightarrow> double \<Rightarrow> double" where
  "dmul a b =
     (case a of
        Fin u \<Rightarrow> (case b of Fin v \<Rightarrow> round_double (u * v) | NonFin \<Rightarrow> NonFin)
      | NonFin \<Rightarrow> NonFin)"

text \<open>Division by a finite divisor; a zero divisor gives an infinity or a NaN.\<close>

definition ddiv :: "double \<Rightarrow> real \<Rightarrow> double" where
  "ddiv a d =
     (case a of
        Fin u \<Rightarrow> if d = 0 then NonFin else round_double (u / d)
      | NonFin \<Rightarrow> NonFin)"

section \<open>Simple powertrain (ChSimplePowertrain)\<close>

datatype DriveMode = FORWARD | REVERSE | NEUTRAL

text \<open>
  The four pure virtual parameters of the template; \<^verbatim>\<open>SimplePowertrain\<close> answers them
  from the members \<^verbatim>\<open>m_fwd_gear_ratio\<close>, \<^verbatim>\<open>m_rev_gear_ratio\<close>, \<^verbatim>\<open>m_max_torque\<close>
  and \<^verbatim>\<open>m_max_speed\<close>.
\<close>

record powertrain_params =
  GetForwardGearRatio :: real
  GetReverseGearRatio :: real
  GetMaxTorque :: real
  GetMaxSpeed :: real

text \<open>The members that \<^verbatim>\<open>ChSimplePowertrain.cpp\<close> reads and writes.\<close>

record ChSimplePowertrain =
  m_drive_mode :: DriveMode
  m_current_gear_ratio :: real
  m_motorSpeed :: double
  m_motorTorque :: double
  m_shaftTorque :: double

definition ChSimplePowertrain_Initialize ::
  "powertrain_params \<Rightarrow> 'a ChSimplePowertrain_scheme \<Rightarrow> 'a ChSimplePowertrain_scheme" where
  "ChSimplePowertrain_Initialize P s = s\<lparr>m_current_gear_ratio := GetForwardGearRatio P\<rparr>"

fun SetDriveMode ::
  "powertrain_params \<Rightarrow> DriveMode \<Rightarrow> 'a ChSimplePowertrain_scheme \<Rightarrow> 'a ChSimplePowertrain_scheme" where
  "SetDriveMode P FORWARD s =
     s\<lparr>m_drive_mode := FORWARD, m_current_gear_ratio := GetForwardGearRatio P\<rparr>"
| "SetDriveMode P REVERSE s =
     s\<lparr>m_drive_mode := REVERSE, m_current_gear_ratio := GetReverseGearRatio P\<rparr>"
| "SetDriveMode P NEUTRAL s =
     s\<lparr>m_drive_mode := NEUTRAL, m_current_gear_ratio := 10 ^ 20\<rparr>"

text \<open>
  \<^verbatim>\<open>Update(time, throttle, shaft_speed)\<close>: the four assignments of the source, in
  order; \<open>motorTorque0\<close> is \<^verbatim>\<open>m_motorTorque\<close> before \<^verbatim>\<open>m_motorTorque *= throttle\<close>.
\<close>

definition ChSimplePowertrain_Update ::
  "powertrain_params \<Rightarrow> real \<Rightarrow> real \<Rightarrow> real \<Rightarrow>
     'a ChSimplePowertrain_scheme \<Rightarrow> 'a ChSimplePowertrain_scheme" where
  "ChSimplePowertrain_Update P time throttle shaft_speed s =
     (let motorSpeed = ddiv (Fin shaft_speed) (m_current_gear_ratio s);
          motorTorque0 =
            dsub (Fin (GetMaxTorque P))
                 (dmul motorSpeed (ddiv (Fin (GetMaxTorque P)) (GetMaxSpeed P)));
          motorTorque = dmul motorTorque0 (Fin throttle);
          shaftTorque = ddiv motorTorque (m_current_gear_ratio s)
      in s\<lparr>m_motorSpeed := motorSpeed,
            m_motorTorque := motorTorque,
            m_shaftTorque := shaftTorque\<rparr>)"

text \<open>
  A run of \<^verbatim>\<open>Update\<close> calls, one after the other, each given by its three arguments
  \<open>(time, throttle, shaft_speed)\<close>.
\<close>

fun Update_calls ::
  "powertrain_params \<Rightarrow> (real \<times> real \<times> real) list \<Rightarrow>
     'a ChSimplePowertrain_scheme \<Rightarrow> 'a ChSimplePowertrain_scheme" where
  "Update_calls P [] s = s"
| "Update_calls P ((time, throttle, shaft_speed) # calls) s =
     Update_calls P calls (ChSimplePowertrain_Update P time throttle shaft_speed s)"

section \<open>Shared types of the vehicle subsystems\<close>

record ChVector =
  vec_x :: real
  vec_y :: real
  vec_z :: real

record ChQuaternion =
  quat_e0 :: real
  quat_e1 :: real
  quat_e2 :: real
  quat_e3 :: real

text \<open>
  \<^verbatim>\<open>ChWheelId\<close> is a C++ enumeration, so a variable of that type can hold an integer
  that is none of the four enumerators; the \<^verbatim>\<open>default:\<close> branches of the sources are
  written for that case. \<open>OUT_OF_RANGE n\<close> is such a value: the variable holds the
  integer \<open>n\<close>, and \<open>n\<close> is not the value of any of the four enumerators.
\<close>

datatype ChWheelId = FRONT_LEFT | FRONT_RIGHT | REAR_LEFT | REAR_RIGHT | OUT_OF_RANGE int

datatype Side = LEFT | RIGHT

datatype error = AssertionFailed | NullPointer

section \<open>Shaft-based 2WD driveline (ChShaftsDriveline2WD)\<close>

record ChShaft =
  Inertia :: real

record ChShaftsGearboxAngled =
  gearbox_shaft_1 :: ChShaft
  gearbox_shaft_2 :: ChShaft
  gearbox_body :: int
  gearbox_dir_1 :: ChVector
  gearbox_dir_2 :: ChVector
  TransmissionRatio :: real

record ChShaftsPlanetary =
  planetary_shaft_1 :: ChShaft
  planetary_shaft_2 :: ChShaft
  planetary_shaft_3 :: ChShaft
  TransmissionRatioOrdinary :: real
  TorqueReactionOn2 :: double
  TorqueReactionOn3 :: double

datatype ChPhysicsItem =
    ShaftItem ChShaft
  | GearboxItem ChShaftsGearboxAngled
  | PlanetaryItem ChShaftsPlanetary

text \<open>
  A body knows the physical system it has been added to: \<^verbatim>\<open>GetSystem()\<close> is null
  for a body that is in no system. The system is the sequence of items added to it.
  The angled gearbox refers to its body by the body's identifier.
\<close>

record ChBody =
  Identifier :: int
  GetSystem :: "ChPhysicsItem list option"

text \<open>The pure virtual parameters that \<^verbatim>\<open>Initialize\<close> asks the concrete driveline for.\<close>

record driveline_params =
  GetDriveshaftInertia :: real
  GetDifferentialBoxInertia :: real
  GetConicalGearRatio :: real
  GetDifferentialRatio :: real

text \<open>The members; a shared pointer that has not been set is \<open>None\<close>.\<close>

record ChShaftsDriveline2WD =
  m_dir_motor_block :: ChVector
  m_dir_axle :: ChVector
  m_driveshaft :: "ChShaft option"
  m_differentialbox :: "ChShaft option"
  m_conicalgear :: "ChShaftsGearboxAngled option"
  m_differential :: "ChShaftsPlanetary option"

text \<open>
  \<^verbatim>\<open>Initialize(chassis, axle_L, axle_R)\<close>. The four \<^verbatim>\<open>assert\<close>s come first, in the
  order of the source; a failed assertion ends the call with no driveline. After them
  the driveshaft, the differential box, the conical gear and the differential are
  created and added to the chassis' system, in that order. \<open>new_planetary\<close> is the
  object that \<^verbatim>\<open>new ChShaftsPlanetary\<close> yields (library code); \<^verbatim>\<open>Initialize\<close> sets
  its three members and its ordinary ratio and leaves the rest of it alone.
  The result is the driveline together with the chassis, whose system has grown.
\<close>

definition ChShaftsDriveline2WD_Initialize ::
  "driveline_params \<Rightarrow> ChShaftsPlanetary \<Rightarrow>
     ChBody option \<Rightarrow> ChShaft option \<Rightarrow> ChShaft option \<Rightarrow>
     ChShaftsDriveline2WD \<Rightarrow> error + (ChShaftsDriveline2WD \<times> ChBody)" where
  "ChShaftsDriveline2WD_Initialize P new_planetary chassis axle_L axle_R d =
     (case chassis of
        None \<Rightarrow> Inl AssertionFailed
      | Some ch \<Rightarrow>
     (case axle_L of
        None \<Rightarrow> Inl AssertionFailed
      | Some aL \<Rightarrow>
     (case axle_R of
        None \<Rightarrow> Inl AssertionFailed
      | Some aR \<Rightarrow>
     (case GetSystem ch of
        None \<Rightarrow> Inl AssertionFailed
      | Some my_system \<Rightarrow>
          let driveshaft = \<lparr>Inertia = GetDriveshaftInertia P\<rparr>;
              system1 = my_system @ [ShaftItem driveshaft];
              differentialbox = \<lparr>Inertia = GetDifferentialBoxInertia P\<rparr>;
              system2 = system1 @ [ShaftItem differentialbox];
              conicalgear =
                \<lparr>gearbox_shaft_1 = driveshaft,
                 gearbox_shaft_2 = differentialbox,
                 gearbox_body = Identifier ch,
                 gearbox_dir_1 = m_dir_motor_block d,
                 gearbox_dir_2 = m_dir_axle d,
                 TransmissionRatio = GetConicalGearRatio P\<rparr>;
              system3 = system2 @ [GearboxItem conicalgear];
              differential =
                new_planetary
                  \<lparr>planetary_shaft_1 := differentialbox,
                   planetary_shaft_2 := aL,
                   planetary_shaft_3 := aR,
                   TransmissionRatioOrdinary := GetDifferentialRatio P\<rparr>;
              system4 = system3 @ [PlanetaryItem differential]
          in Inr (d\<lparr>m_driveshaft := Some driveshaft,
                    m_differentialbox := Some differentialbox,
                    m_conicalgear := Some conicalgear,
                    m_differential := Some differential\<rparr>,
                  ch\<lparr>GetSystem := Some system4\<rparr>)))))"

text \<open>
  \<^verbatim>\<open>GetWheelTorque(which)\<close>. The rear cases go through \<^verbatim>\<open>m_differential\<close>, which
  is null until \<^verbatim>\<open>Initialize\<close> has run.
\<close>

fun GetWheelTorque :: "ChShaftsDriveline2WD \<Rightarrow> ChWheelId \<Rightarrow> error + double" where
  "GetWheelTorque d FRONT_LEFT = Inr (Fin 0)"
| "GetWheelTorque d FRONT_RIGHT = Inr (Fin 0)"
| "GetWheelTorque d REAR_LEFT =
     (case m_differential d of
        None \<Rightarrow> Inl NullPointer
      | Some differential \<Rightarrow> Inr (dneg (TorqueReactionOn2 differential)))"
| "GetWheelTorque d REAR_RIGHT =
     (case m_differential d of
        None \<Rightarrow> Inl NullPointer
      | Some differential \<Rightarrow> Inr (dneg (TorqueReactionOn3 differential)))"
| "GetWheelTorque d (OUT_OF_RANGE n) = Inr (Fin (- 1))"

text \<open>
  The precondition in the words of the specification: chassis and both axle shafts
  are given, and the chassis is registered with a physical system.
\<close>

definition Initialize_precondition ::
  "ChBody option \<Rightarrow> ChShaft option \<Rightarrow> ChShaft option \<Rightarrow> bool" where
  "Initialize_precondition chassis axle_L axle_R =
     (case chassis of
        None \<Rightarrow> False
      | Some ch \<Rightarrow> axle_L \<noteq> None \<and> axle_R \<noteq> None \<and> GetSystem ch \<noteq> None)"

section \<open>Vehicle assembly (HMMWV_VehicleSolidAxle)\<close>

text \<open>
  A shared pointer to a body is the address of the body, or null. The suspension
  accessors called by the vehicle are declared in \<^verbatim>\<open>ChSuspension\<close>; each of them
  reads the state of one side, so a suspension is given by what its accessors return
  for either side.
\<close>

type_synonym ChSharedBodyPtr = "nat option"

record ChSuspension =
  GetSpindle :: "Side \<Rightarrow> ChSharedBodyPtr"
  GetSpindlePos :: "Side \<Rightarrow> ChVector"
  GetSpindleRot :: "Side \<Rightarrow> ChQuaternion"
  GetSpindleLinVel :: "Side \<Rightarrow> ChVector"
  GetSpindleAngVel :: "Side \<Rightarrow> ChVector"
  GetAxleSpeed :: "Side \<Rightarrow> double"
  ChSolidAxle_GetSpringForce :: "Side \<Rightarrow> double"
  ChSolidAxle_GetSpringLen :: "Side \<Rightarrow> double"

record HMMWV_VehicleSolidAxle =
  m_front_susp :: ChSuspension
  m_rear_susp :: ChSuspension

fun GetWheelBody :: "HMMWV_VehicleSolidAxle \<Rightarrow> ChWheelId \<Rightarrow> ChSharedBodyPtr" where
  "GetWheelBody v FRONT_LEFT = GetSpindle (m_front_susp v) LEFT"
| "GetWheelBody v FRONT_RIGHT = GetSpindle (m_front_susp v) RIGHT"
| "GetWheelBody v REAR_LEFT = GetSpindle (m_rear_susp v) LEFT"
| "GetWheelBody v REAR_RIGHT = GetSpindle (m_rear_susp v) RIGHT"
| "GetWheelBody v (OUT_OF_RANGE n) = GetSpindle (m_front_susp v) RIGHT"

fun GetWheelPos :: "HMMWV_VehicleSolidAxle \<Rightarrow> ChWheelId \<Rightarrow> ChVector" where
  "GetWheelPos v FRONT_LEFT = GetSpindlePos (m_front_susp v) LEFT"
| "GetWheelPos v FRONT_RIGHT = GetSpindlePos (m_front_susp v) RIGHT"
| "GetWheelPos v REAR_LEFT = GetSpindlePos (m_rear_susp v) LEFT"
| "GetWheelPos v REAR_RIGHT = GetSpindlePos (m_rear_susp v) RIGHT"
| "GetWheelPos v (OUT_OF_RANGE n) = GetSpindlePos (m_front_susp v) RIGHT"

fun GetWheelRot :: "HMMWV_VehicleSolidAxle \<Rightarrow> ChWheelId \<Rightarrow> ChQuaternion" where
  "GetWheelRot v FRONT_LEFT = GetSpindleRot (m_front_susp v) LEFT"
| "GetWheelRot v FRONT_RIGHT = GetSpindleRot (m_front_susp v) RIGHT"
| "GetWheelRot v REAR_LEFT = GetSpindleRot (m_rear_susp v) LEFT"
| "GetWheelRot v REAR_RIGHT = GetSpindleRot (m_rear_susp v) RIGHT"
| "GetWheelRot v (OUT_OF_RANGE n) = GetSpindleRot (m_front_susp v) RIGHT"

fun GetWheelLinVel :: "HMMWV_VehicleSolidAxle \<Rightarrow> ChWheelId \<Rightarrow> ChVector" where
  "GetWheelLinVel v FRONT_LEFT = GetSpindleLinVel (m_front_susp v) LEFT"
| "GetWheelLinVel v FRONT_RIGHT = GetSpindleLinVel (m_front_susp v) RIGHT"
| "GetWheelLinVel v REAR_LEFT = GetSpindleLinVel (m_rear_susp v) LEFT"
| "GetWheelLinVel v REAR_RIGHT = GetSpindleLinVel (m_rear_susp v) RIGHT"
| "GetWheelLinVel v (OUT_OF_RANGE n) = GetSpindleLinVel (m_front_susp v) RIGHT"

fun GetWheelAngVel :: "HMMWV_VehicleSolidAxle \<Rightarrow> ChWheelId \<Rightarrow> ChVector" where
  "GetWheelAngVel v FRONT_LEFT = GetSpindleAngVel (m_front_susp v) LEFT"
| "GetWheelAngVel v FRONT_RIGHT = GetSpindleAngVel (m_front_susp v) RIGHT"
| "GetWheelAngVel v REAR_LEFT = GetSpindleAngVel (m_rear_susp v) LEFT"
| "GetWheelAngVel v REAR_RIGHT = GetSpindleAngVel (m_rear_susp v) RIGHT"
| "GetWheelAngVel v (OUT_OF_RANGE n) = GetSpindleAngVel (m_front_susp v) RIGHT"

fun GetWheelOmega :: "HMMWV_VehicleSolidAxle \<Rightarrow> ChWheelId \<Rightarrow> double" where
  "GetWheelOmega v FRONT_LEFT = GetAxleSpeed (m_front_susp v) LEFT"
| "GetWheelOmega v FRONT_RIGHT = GetAxleSpeed (m_front_susp v) RIGHT"
| "GetWheelOmega v REAR_LEFT = GetAxleSpeed (m_rear_susp v) LEFT"
| "GetWheelOmega v REAR_RIGHT = GetAxleSpeed (m_rear_susp v) RIGHT"
| "GetWheelOmega v (OUT_OF_RANGE n) = Fin (- 1)"

fun GetSpringForce :: "HMMWV_VehicleSolidAxle \<Rightarrow> ChWheelId \<Rightarrow> double" where
  "GetSpringForce v FRONT_LEFT = ChSolidAxle_GetSpringForce (m_front_susp v) LEFT"
| "GetSpringForce v FRONT_RIGHT = ChSolidAxle_GetSpringForce (m_front_susp v) RIGHT"
| "GetSpringForce v REAR_LEFT = ChSolidAxle_GetSpringForce (m_rear_susp v) LEFT"
| "GetSpringForce v REAR_RIGHT = ChSolidAxle_GetSpringForce (m_rear_susp v) RIGHT"
| "GetSpringForce v (OUT_OF_RANGE n) = Fin (- 1)"

fun GetSpringLength :: "HMMWV_VehicleSolidAxle \<Rightarrow> ChWheelId \<Rightarrow> double" where
  "GetSpringLength v FRONT_LEFT = ChSolidAxle_GetSpringLen (m_front_susp v) LEFT"
| "GetSpringLength v FRONT_RIGHT = ChSolidAxle_GetSpringLen (m_front_susp v) RIGHT"
| "GetSpringLength v REAR_LEFT = ChSolidAxle_GetSpringLen (m_rear_susp v) LEFT"
| "GetSpringLength v REAR_RIGHT = ChSolidAxle_GetSpringLen (m_rear_susp v) RIGHT"
| "GetSpringLength v (OUT_OF_RANGE n) = Fin (- 1)"

subsection \<open>The per-step update\<close>

text \<open>
  \<^verbatim>\<open>Update\<close> has no result; all it does is call the subsystems it owns. Their
  methods are defined outside the vehicle class, so the model of \<^verbatim>\<open>Update\<close> is the
  sequence of calls it makes, in program order, each with the object it is made on and
  its arguments. \<^verbatim>\<open>ChTireForces\<close> is indexed by wheel identifier.
\<close>

record ChTireForce =
  force :: ChVector
  point :: ChVector
  moment :: ChVector

datatype suspension_member = front_susp | rear_susp

datatype brake_member = front_right_brake | front_left_brake | rear_right_brake | rear_left_brake

datatype subsystem_call =
    ApplySteering suspension_member real
  | Powertrain_Update real real
  | ApplyTireForce suspension_member Side ChTireForce
  | ApplyBrakeModulation brake_member real

definition HMMWV_VehicleSolidAxle_Update ::
  "real \<Rightarrow> real \<Rightarrow> real \<Rightarrow> real \<Rightarrow> (ChWheelId \<Rightarrow> ChTireForce) \<Rightarrow> subsystem_call list" where
  "HMMWV_VehicleSolidAxle_Update time throttle steering braking tire_forces =
     (let displ = 0.08 * steering
      in [ApplySteering front_susp displ,
          Powertrain_Update time throttle,
          ApplyTireForce front_susp RIGHT (tire_forces FRONT_RIGHT),
          ApplyTireForce front_susp LEFT (tire_forces FRONT_LEFT),
          ApplyTireForce rear_susp RIGHT (tire_forces REAR_RIGHT),
          ApplyTireForce rear_susp LEFT (tire_forces REAR_LEFT),
          ApplyBrakeModulation front_right_brake braking,
          ApplyBrakeModulation front_left_brake braking,
          ApplyBrakeModulation rear_right_brake braking,
          ApplyBrakeModulation rear_left_brake braking])"

text \<open>Sorting the calls of a trace by method.\<close>

fun is_ApplySteering :: "subsystem_call \<Rightarrow> bool" where
  "is_ApplySteering (ApplySteering s displ) = True"
| "is_ApplySteering c = False"

fun is_Powertrain_Update :: "subsystem_call \<Rightarrow> bool" where
  "is_Powertrain_Update (Powertrain_Update time throttle) = True"
| "is_Powertrain_Update c = False"

fun is_ApplyTireForce :: "subsystem_call \<Rightarrow> bool" where
  "is_ApplyTireForce (ApplyTireForce s side f) = True"
| "is_ApplyTireForce c = False"

fun is_ApplyBrakeModulation :: "subsystem_call \<Rightarrow> bool" where
  "is_ApplyBrakeModulation (ApplyBrakeModulation b modulation) = True"
| "is_ApplyBrakeModulation c = False"

text \<open>The suspension object behind each of the two suspension members.\<close>

definition suspension_of :: "HMMWV_VehicleSolidAxle \<Rightarrow> suspension_member \<Rightarrow> ChSuspension" where
  "suspension_of v m = (case m of front_susp \<Rightarrow> m_front_susp v | rear_susp \<Rightarrow> m_rear_susp v)"

section \<open>Hardpoints of the suspension templates\<close>

text \<open>
  Modelled from the spec: the bodies of \<^verbatim>\<open>ChSolidAxle::Initialize\<close> and
  \<^verbatim>\<open>ChDoubleWishboneReduced::Initialize\<close>, which build the two sides from the
  hardpoints, are not among the sources (their class declarations are). The
  specification says: each variant supplies a table of points for the RIGHT side;
  construction for the LEFT side takes the same table and negates the Y component of
  every point. \<open>getLocation\<close> is the variant's table (the pure virtual
  \<^verbatim>\<open>getLocation(PointId)\<close>), over the variant's own point identifiers.
\<close>

definition mirror_y :: "ChVector \<Rightarrow> ChVector" where
  "mirror_y p = p\<lparr>vec_y := - vec_y p\<rparr>"

text \<open>
  Modelled from the spec: the point a side is built from (the code that selects it is
  in the missing \<^verbatim>\<open>Initialize\<close> bodies). The RIGHT side uses the table as it is, the
  LEFT side the mirrored point.
\<close>

definition side_location :: "('p \<Rightarrow> ChVector) \<Rightarrow> Side \<Rightarrow> 'p \<Rightarrow> ChVector" where
  "side_location getLocation side which =
     (case side of
        RIGHT \<Rightarrow> getLocation which
      | LEFT \<Rightarrow> mirror_y (getLocation which))"

section \<open>Magnitudes\<close>

text \<open>\<open>dabs_le v b\<close>: the value is finite and its magnitude is at most \<open>b\<close>.\<close>

definition dabs_le :: "double \<Rightarrow> real \<Rightarrow> bool" where
  "dabs_le a b = (case a of Fin u \<Rightarrow> abs u \<le> b | NonFin \<Rightarrow> False)"

text \<open>A magnitude between \<open>2^-200\<close> and \<open>2^200\<close>: far from underflow and overflow.\<close>

definition ordinary_magnitude :: "real \<Rightarrow> bool" where
  "ordinary_magnitude x = (1 / 2 ^ 200 \<le> \<bar>x\<bar> \<and> \<bar>x\<bar> \<le> 2 ^ 200)"

section \<open>Rounding to double\<close>

lemma round_half_even_error: "\<bar>of_int (round_half_even z) - z\<bar> \<le> 1 / 2"
proof -
  have "of_int \<lfloor>z\<rfloor> \<le> z" "z < of_int \<lfloor>z\<rfloor> + 1"
    by linarith+
  then show ?thesis
    by (auto simp: round_half_even_def Let_def)
qed

lemma two_powi_Suc: "(2::real) powi (k + 1) = 2 powi k * 2"
  by (simp add: power_int_add)

lemma binade_bounds:
  "2 powi (- int n) \<le> \<bar>x\<bar> \<Longrightarrow> \<bar>x\<bar> < 2 powi (int n + 1) \<Longrightarrow>
   2 powi (binade n x) \<le> \<bar>x\<bar> \<and> \<bar>x\<bar> < 2 powi (binade n x + 1)"
proof (induction n arbitrary: x)
  case 0
  then show ?case by simp
next
  case (Suc n)
  have low: "(2::real) powi (- int n) \<le> 1"
    by (simp add: power_int_minus inverse_le_1_iff flip: power_int_of_nat)
  have up: "(1::real) \<le> 2 powi (int n)"
    by simp
  have S1: "(2::real) powi (int (Suc n) + 1) = 2 powi (int n + 1) * 2"
    using two_powi_Suc [of "int n + 1"] by (simp add: add.commute add.left_commute)
  have S2: "(2::real) powi (- int n) = 2 powi (- int (Suc n)) * 2"
    using two_powi_Suc [of "- int (Suc n)"] by simp
  consider "2 \<le> \<bar>x\<bar>" | "\<bar>x\<bar> < 1" | "1 \<le> \<bar>x\<bar>" "\<bar>x\<bar> < 2"
    by linarith
  then show ?case
  proof cases
    case 1
    have a: "2 powi (- int n) \<le> \<bar>x / 2\<bar>"
      using low 1 by simp
    have b: "\<bar>x / 2\<bar> < 2 powi (int n + 1)"
      using Suc.prems(2) unfolding S1 by simp
    from Suc.IH [OF a b]
    have "2 powi (binade n (x / 2)) * 2 \<le> \<bar>x\<bar>" "\<bar>x\<bar> < 2 powi (binade n (x / 2) + 1) * 2"
      by (simp_all add: abs_divide field_simps)
    then show ?thesis
      using 1 by (simp add: power_int_add)
  next
    case 2
    have a: "2 powi (- int n) \<le> \<bar>x * 2\<bar>"
      using Suc.prems(1) unfolding S2 by simp
    have "\<bar>x * 2\<bar> < 2"
      using 2 by simp
    also have "(2::real) \<le> 2 powi (int n + 1)"
      using up by (simp add: two_powi_Suc)
    finally have b: "\<bar>x * 2\<bar> < 2 powi (int n + 1)" .
    from Suc.IH [OF a b]
    have c: "2 powi (binade n (x * 2)) \<le> \<bar>x\<bar> * 2" "\<bar>x\<bar> * 2 < 2 powi (binade n (x * 2) + 1)"
      by (simp_all add: abs_mult)
    have d: "(2::real) powi (binade n (x * 2)) = 2 powi (binade n (x * 2) - 1) * 2"
      using two_powi_Suc [of "binade n (x * 2) - 1"] by simp
    show ?thesis
      using 2 c by (simp add: power_int_add power_int_diff)
  next
    case 3
    then show ?thesis by simp
  qed
qed

lemma less_2_1024: "(2::real) ^ 1023 < 2 ^ 1024"
  by simp

lemma ulp_exponent_subnormal: "\<bar>x\<bar> < 1 / 2 ^ 1022 \<Longrightarrow> ulp_exponent x = - 1074"
  by (simp add: ulp_exponent_def)

lemma ulp_exponent_normal:
  assumes lo: "1 / 2 ^ 1022 \<le> \<bar>x\<bar>" and hi: "\<bar>x\<bar> < 2 ^ 1024"
  shows "2 powi (ulp_exponent x + 52) \<le> \<bar>x\<bar>"
    and "\<bar>x\<bar> < 2 powi (ulp_exponent x + 53)"
    and "ulp_exponent x \<le> 971"
    and "- 1074 \<le> ulp_exponent x"
proof -
  have "(2::real) powi (- int 1100) \<le> 1 / 2 ^ 1022"
    by (simp add: power_int_minus_divide)
  with lo have a: "2 powi (- int 1100) \<le> \<bar>x\<bar>"
    by linarith
  have "(2::real) ^ 1024 \<le> 2 powi (int 1100 + 1)"
    by simp
  with hi have b: "\<bar>x\<bar> < 2 powi (int 1100 + 1)"
    by linarith
  have B: "2 powi (binade 1100 x) \<le> \<bar>x\<bar>" "\<bar>x\<bar> < 2 powi (binade 1100 x + 1)"
    using binade_bounds [OF a b] by blast+
  have ue: "ulp_exponent x = binade 1100 x - 52"
    using lo by (simp add: ulp_exponent_def)
  have "ulp_exponent x + 52 = binade 1100 x" "ulp_exponent x + 53 = binade 1100 x + 1"
    by (simp_all add: ue)
  then show "2 powi (ulp_exponent x + 52) \<le> \<bar>x\<bar>" "\<bar>x\<bar> < 2 powi (ulp_exponent x + 53)"
    using B by (simp_all only:)
  show "ulp_exponent x \<le> 971"
  proof (rule ccontr)
    assume "\<not> ulp_exponent x \<le> 971"
    then have "1024 \<le> binade 1100 x"
      by (simp add: ue)
    then have "(2::real) powi 1024 \<le> 2 powi (binade 1100 x)"
      by (intro power_int_increasing) simp_all
    with B hi show False
      by simp
  qed
  show "- 1074 \<le> ulp_exponent x"
  proof (rule ccontr)
    assume "\<not> - 1074 \<le> ulp_exponent x"
    then have "binade 1100 x + 1 \<le> - 1022"
      by (simp add: ue)
    then have "(2::real) powi (binade 1100 x + 1) \<le> 2 powi (- 1022)"
      by (intro power_int_increasing) simp_all
    with B lo show False
      by (simp add: power_int_minus_divide)
  qed
qed

lemma ulp_exponent_le: "\<bar>x\<bar> < 2 ^ 1024 \<Longrightarrow> ulp_exponent x \<le> 971"
  using ulp_exponent_normal(3) [of x] ulp_exponent_subnormal [of x]
  by (cases "\<bar>x\<bar> < 1 / 2 ^ 1022") simp_all

text \<open>Half a unit in the last place bounds the rounding error, and the result is finite
  when the exact value is at most \<open>2^1023\<close> in magnitude.\<close>

lemma round_double_half_ulp:
  assumes "\<bar>x\<bar> \<le> 2 ^ 1023"
  obtains y where "round_double x = Fin y" and "\<bar>y - x\<bar> \<le> 2 powi (ulp_exponent x) / 2"
proof -
  define u where "u = (2::real) powi (ulp_exponent x)"
  define y where "y = of_int (round_half_even (x / u)) * u"
  have upos: "0 < u"
    by (simp add: u_def)
  have "y - x = (of_int (round_half_even (x / u)) - x / u) * u"
    using upos by (simp add: y_def algebra_simps)
  then have "\<bar>y - x\<bar> = \<bar>of_int (round_half_even (x / u)) - x / u\<bar> * u"
    using upos by (simp add: abs_mult)
  also have "\<dots> \<le> 1 / 2 * u"
    using upos by (intro mult_right_mono round_half_even_error) simp
  finally have err: "\<bar>y - x\<bar> \<le> u / 2"
    by simp
  have small: "\<bar>x\<bar> < 2 ^ 1024"
    using assms less_2_1024 by linarith
  have "u \<le> 2 powi 971"
    unfolding u_def using ulp_exponent_le [OF small] by (intro power_int_increasing) simp_all
  then have "u / 2 \<le> 2 ^ 970"
    by simp
  with err assms have "\<bar>y\<bar> \<le> 2 ^ 1023 + 2 ^ 970"
    by linarith
  also have "\<dots> < (2::real) ^ 1024"
    by simp
  finally have fin: "\<not> 2 ^ 1024 \<le> \<bar>y\<bar>"
    by simp
  have "round_double x = Fin y"
    using small fin unfolding round_double_def Let_def u_def y_def by simp
  with err show ?thesis
    using that by (simp add: u_def)
qed

lemma round_double_error:
  assumes "\<bar>x\<bar> \<le> 2 ^ 1023"
  obtains y where "round_double x = Fin y" and "\<bar>y - x\<bar> \<le> \<bar>x\<bar> / 2 ^ 53 + 1 / 2 ^ 1075"
proof -
  obtain y where y: "round_double x = Fin y" "\<bar>y - x\<bar> \<le> 2 powi (ulp_exponent x) / 2"
    using round_double_half_ulp [OF assms] by blast
  have "2 powi (ulp_exponent x) / 2 \<le> \<bar>x\<bar> / 2 ^ 53 + 1 / 2 ^ 1075"
  proof (cases "\<bar>x\<bar> < 1 / 2 ^ 1022")
    case True
    have "(2::real) powi (- 1074) / 2 = 1 / 2 ^ 1075"
      by (simp add: power_int_minus_divide)
    then show ?thesis
      using True by (simp add: ulp_exponent_subnormal)
  next
    case False
    have small: "\<bar>x\<bar> < 2 ^ 1024"
      using assms less_2_1024 by linarith
    from False have "2 powi (ulp_exponent x + 52) \<le> \<bar>x\<bar>"
      by (intro ulp_exponent_normal(1) small) simp
    then have "2 powi (ulp_exponent x) * 2 ^ 52 \<le> \<bar>x\<bar>"
      by (simp add: power_int_add)
    then have "2 powi (ulp_exponent x) / 2 \<le> \<bar>x\<bar> / 2 ^ 53"
      by (simp add: field_simps)
    then show ?thesis
      by (simp add: add_increasing2)
  qed
  with y show ?thesis
    using that by fastforce
qed

lemma round_double_error_normal:
  assumes "1 / 2 ^ 1022 \<le> \<bar>x\<bar>" and "\<bar>x\<bar> \<le> 2 ^ 1023"
  obtains y where "round_double x = Fin y" and "\<bar>y - x\<bar> \<le> \<bar>x\<bar> / 2 ^ 53"
proof -
  obtain y where y: "round_double x = Fin y" "\<bar>y - x\<bar> \<le> 2 powi (ulp_exponent x) / 2"
    using round_double_half_ulp [OF assms(2)] by blast
  have small: "\<bar>x\<bar> < 2 ^ 1024"
    using assms(2) less_2_1024 by linarith
  have "2 powi (ulp_exponent x + 52) \<le> \<bar>x\<bar>"
    by (intro ulp_exponent_normal(1) small assms(1))
  then have "2 powi (ulp_exponent x) * 2 ^ 52 \<le> \<bar>x\<bar>"
    by (simp add: power_int_add)
  then have "2 powi (ulp_exponent x) / 2 \<le> \<bar>x\<bar> / 2 ^ 53"
    by (simp add: field_simps)
  with y show ?thesis
    using that by fastforce
qed

text \<open>Evaluating the rounding of a given number.\<close>

lemma binade_numeral:
  "binade (numeral k) x =
     (if 2 \<le> \<bar>x\<bar> then binade (pred_numeral k) (x / 2) + 1
      else if \<bar>x\<bar> < 1 then binade (pred_numeral k) (x * 2) - 1
      else 0)"
  by (simp add: numeral_eq_Suc)

lemmas round_eval =
  round_double_def ulp_exponent_def round_half_even_def Let_def binade_numeral

lemmas double_ops = dneg_def dsub_def dmul_def ddiv_def

lemma round_double_0: "round_double 0 = Fin 0"
  by (simp add: round_eval)

lemma dsub_Fin: "dsub (Fin a) (Fin b) = round_double (a - b)"
  by (simp add: dsub_def)

lemma dmul_Fin: "dmul (Fin a) (Fin b) = round_double (a * b)"
  by (simp add: dmul_def)

lemma ddiv_Fin: "d \<noteq> 0 \<Longrightarrow> ddiv (Fin a) d = round_double (a / d)"
  by (simp add: ddiv_def)

lemma round_double_rel:
  assumes "1 / 2 ^ 1022 \<le> \<bar>x\<bar>" and "\<bar>x\<bar> \<le> 2 ^ 1023"
  obtains d where "round_double x = Fin (x * (1 + d))" and "\<bar>d\<bar> \<le> 1 / 2 ^ 53"
proof -
  obtain y where y: "round_double x = Fin y" "\<bar>y - x\<bar> \<le> \<bar>x\<bar> / 2 ^ 53"
    using round_double_error_normal [OF assms] by blast
  have x0: "x \<noteq> 0"
    using assms(1) by auto
  define d where "d = (y - x) / x"
  have "x * (1 + d) = y"
    using x0 by (simp add: d_def field_simps)
  then have 1: "round_double x = Fin (x * (1 + d))"
    using y(1) by simp
  have 2: "\<bar>d\<bar> \<le> 1 / 2 ^ 53"
  proof -
    have "\<bar>d\<bar> = \<bar>y - x\<bar> / \<bar>x\<bar>"
      by (simp add: d_def abs_divide)
    also have "\<dots> \<le> (\<bar>x\<bar> / 2 ^ 53) / \<bar>x\<bar>"
      using y(2) by (intro divide_right_mono) simp_all
    also have "\<dots> = 1 / 2 ^ 53"
      using x0 by simp
    finally show ?thesis .
  qed
  from 1 2 show ?thesis
    by (rule that)
qed

text \<open>The same for values of ordinary magnitude.\<close>

lemma round_double_rel_ordinary:
  assumes "1 / 2 ^ 1000 \<le> \<bar>x\<bar>" and "\<bar>x\<bar> \<le> 2 ^ 1000"
  obtains d where "round_double x = Fin (x * (1 + d))" and "\<bar>d\<bar> \<le> 1 / 2 ^ 53"
proof -
  have "(1::real) / 2 ^ 1022 \<le> 1 / 2 ^ 1000" "(2::real) ^ 1000 \<le> 2 ^ 1023"
    by simp_all
  with assms have "1 / 2 ^ 1022 \<le> \<bar>x\<bar>" "\<bar>x\<bar> \<le> 2 ^ 1023"
    by linarith+
  then show ?thesis
    using round_double_rel that by blast
qed

lemma round_double_bounded:
  assumes "\<bar>x\<bar> \<le> b" and "1 / 2 ^ 1000 \<le> b" and "b \<le> 2 ^ 1000"
  obtains y where "round_double x = Fin y" and "\<bar>y\<bar> \<le> b * (1 + 1 / 2 ^ 52)"
proof -
  have "(2::real) ^ 1000 \<le> 2 ^ 1023"
    by simp
  with assms have "\<bar>x\<bar> \<le> 2 ^ 1023"
    by linarith
  then obtain y where y: "round_double x = Fin y" "\<bar>y - x\<bar> \<le> \<bar>x\<bar> / 2 ^ 53 + 1 / 2 ^ 1075"
    using round_double_error by blast
  have "(1::real) / 2 ^ 1075 = (1 / 2 ^ 1000) / 2 ^ 75"
    by simp
  also have "\<dots> \<le> b / 2 ^ 75"
    using assms(2) by (intro divide_right_mono) simp_all
  also have "\<dots> \<le> b / 2 ^ 53"
    using assms(2) by (intro divide_left_mono) simp_all
  finally have eta: "1 / 2 ^ 1075 \<le> b / 2 ^ 53" .
  have "\<bar>x\<bar> / 2 ^ 53 \<le> b / 2 ^ 53"
    using assms(1) by (intro divide_right_mono) simp_all
  with y(2) eta have "\<bar>y - x\<bar> \<le> b / 2 ^ 53 + b / 2 ^ 53"
    by linarith
  with assms(1) have "\<bar>y\<bar> \<le> b + (b / 2 ^ 53 + b / 2 ^ 53)"
    by linarith
  also have "\<dots> = b * (1 + 1 / 2 ^ 52)"
    by (simp add: algebra_simps)
  finally show ?thesis
    using that y(1) by blast
qed

lemma prod_err:
  fixes a b :: real
  assumes "\<bar>a\<bar> \<le> e1" and "\<bar>b\<bar> \<le> e2"
  shows "\<bar>(1 + a) * (1 + b) - 1\<bar> \<le> e1 + e2 + e1 * e2"
proof -
  have "(1 + a) * (1 + b) - 1 = a + b + a * b"
    by (simp add: algebra_simps)
  moreover have "\<bar>a * b\<bar> \<le> e1 * e2"
    unfolding abs_mult using assms by (intro mult_mono) simp_all
  ultimately show ?thesis
    using assms by linarith
qed

lemma rel_factor_bounds:
  fixes d :: real
  assumes "\<bar>d\<bar> \<le> 1 / 2 ^ 53"
  shows "1 / 2 \<le> \<bar>1 + d\<bar>" and "\<bar>1 + d\<bar> \<le> 2" and "1 - 1 / 2 ^ 53 \<le> 1 + d" and "0 < 1 + d"
proof -
  have "(1::real) / 2 ^ 53 \<le> 1 / 2"
    by simp
  with assms show "1 / 2 \<le> \<bar>1 + d\<bar>" "\<bar>1 + d\<bar> \<le> 2" "1 - 1 / 2 ^ 53 \<le> 1 + d" "0 < 1 + d"
    by linarith+
qed

lemma four_roundings:
  fixes d1 d2 d3 d4 :: real
  assumes "\<bar>d1\<bar> \<le> 1 / 2 ^ 53" "\<bar>d2\<bar> \<le> 1 / 2 ^ 53" "\<bar>d3\<bar> \<le> 1 / 2 ^ 53" "\<bar>d4\<bar> \<le> 1 / 2 ^ 53"
  shows "\<bar>(1 + d1) * (1 + d2) * (1 + d3) * (1 + d4) - 1\<bar> \<le> 5 / 2 ^ 53"
proof -
  define u :: real where "u = 1 / 2 ^ 53"
  define c2 where "c2 = (1 + d1) * (1 + d2) - 1"
  define c3 where "c3 = (1 + c2) * (1 + d3) - 1"
  have 2: "\<bar>c2\<bar> \<le> u + u + u * u"
    unfolding c2_def u_def by (rule prod_err [OF assms(1) assms(2)])
  have 3: "\<bar>c3\<bar> \<le> (u + u + u * u) + u + (u + u + u * u) * u"
    unfolding c3_def using assms(3) by (intro prod_err 2) (simp add: u_def)
  have 4: "\<bar>(1 + c3) * (1 + d4) - 1\<bar> \<le>
      ((u + u + u * u) + u + (u + u + u * u) * u) + u + ((u + u + u * u) + u + (u + u + u * u) * u) * u"
    using assms(4) by (intro prod_err 3) (simp add: u_def)
  have eq: "(1 + c3) * (1 + d4) = (1 + d1) * (1 + d2) * (1 + d3) * (1 + d4)"
    by (simp add: c3_def c2_def)
  have num: "((u + u + u * u) + u + (u + u + u * u) * u) + u + ((u + u + u * u) + u + (u + u + u * u) * u) * u \<le> 5 / 2 ^ 53"
    by (simp add: u_def)
  from 4 num show ?thesis
    unfolding eq by linarith
qed

section \<open>Properties of the powertrain\<close>

lemma Update_fields:
  "m_motorSpeed (ChSimplePowertrain_Update P t throttle shaft_speed s) =
     ddiv (Fin shaft_speed) (m_current_gear_ratio s)"
  "m_motorTorque (ChSimplePowertrain_Update P t throttle shaft_speed s) =
     dmul (dsub (Fin (GetMaxTorque P))
             (dmul (ddiv (Fin shaft_speed) (m_current_gear_ratio s))
                   (ddiv (Fin (GetMaxTorque P)) (GetMaxSpeed P))))
          (Fin throttle)"
  "m_shaftTorque (ChSimplePowertrain_Update P t throttle shaft_speed s) =
     ddiv (m_motorTorque (ChSimplePowertrain_Update P t throttle shaft_speed s))
          (m_current_gear_ratio s)"
  by (simp_all add: ChSimplePowertrain_Update_def Let_def)

text \<open>At throttle 0 a finite torque is scaled to 0, and so is the shaft torque.\<close>

lemma zero_throttle:
  assumes r: "r \<noteq> 0"
    and fin: "dsub (Fin M) (dmul (ddiv (Fin ss) r) (ddiv (Fin M) S)) \<noteq> NonFin"
  shows "ddiv (dmul (dsub (Fin M) (dmul (ddiv (Fin ss) r) (ddiv (Fin M) S))) (Fin 0)) r = Fin 0"
proof -
  obtain v where "dsub (Fin M) (dmul (ddiv (Fin ss) r) (ddiv (Fin M) S)) = Fin v"
    using fin by (cases "dsub (Fin M) (dmul (ddiv (Fin ss) r) (ddiv (Fin M) S))") auto
  then show ?thesis
    using r by (simp add: dmul_def ddiv_def round_double_0)
qed

text \<open>At standstill and full throttle the motor torque is the maximum torque.\<close>

lemma full_throttle_standstill:
  assumes r: "r \<noteq> 0" and M: "is_double M" and q: "ddiv (Fin M) S \<noteq> NonFin"
  shows "dmul (dsub (Fin M) (dmul (ddiv (Fin 0) r) (ddiv (Fin M) S))) (Fin 1) = Fin M"
proof -
  obtain q where "ddiv (Fin M) S = Fin q"
    using q by (cases "ddiv (Fin M) S") auto
  moreover have "ddiv (Fin 0) r = Fin 0"
    using r by (simp add: ddiv_def round_double_0)
  ultimately show ?thesis
    using M by (simp add: dmul_def dsub_def round_double_0 is_double_def)
qed

text \<open>
  At full throttle and shaft speed \<open>maxSpeed * r\<close> the six roundings leave a motor torque
  of at most \<open>2^-50\<close> times the maximum torque.
\<close>

lemma torque_at_max_speed:
  fixes M S r ss :: real
  assumes M: "1 / 2 ^ 200 \<le> \<bar>M\<bar>" "\<bar>M\<bar> \<le> 2 ^ 200"
    and S: "1 / 2 ^ 200 \<le> \<bar>S\<bar>" "\<bar>S\<bar> \<le> 2 ^ 200"
    and r: "1 / 2 ^ 200 \<le> \<bar>r\<bar>" "\<bar>r\<bar> \<le> 2 ^ 200"
    and ss: "dmul (Fin S) (Fin r) = Fin ss"
  shows "dabs_le (dmul (dsub (Fin M) (dmul (ddiv (Fin ss) r) (ddiv (Fin M) S))) (Fin 1))
           (\<bar>M\<bar> / 2 ^ 50)"
proof -
  have r0: "r \<noteq> 0" and S0: "S \<noteq> 0"
    using r(1) S(1) by auto
  \<comment> \<open>the product \<open>maxSpeed * r\<close>\<close>
  have "(1 / 2 ^ 200) * (1 / 2 ^ 200) \<le> \<bar>S\<bar> * \<bar>r\<bar>"
    using S(1) r(1) by (intro mult_mono) simp_all
  then have a1: "1 / 2 ^ 1000 \<le> \<bar>S * r\<bar>"
    by (simp add: abs_mult)
  have "\<bar>S\<bar> * \<bar>r\<bar> \<le> 2 ^ 200 * 2 ^ 200"
    using S(2) r(2) by (intro mult_mono) simp_all
  then have a2: "\<bar>S * r\<bar> \<le> 2 ^ 1000"
    by (simp add: abs_mult)
  obtain d1 where d1: "round_double (S * r) = Fin (S * r * (1 + d1))" "\<bar>d1\<bar> \<le> 1 / 2 ^ 53"
    using round_double_rel_ordinary [OF a1 a2] by blast
  have ss_eq: "ss = S * r * (1 + d1)"
    using ss d1(1) by (simp add: dmul_def)
  note f1 = rel_factor_bounds [OF d1(2)]
  \<comment> \<open>the motor speed\<close>
  have x2: "ss / r = S * (1 + d1)"
    using r0 by (simp add: ss_eq)
  have "(1 / 2 ^ 200) * (1 / 2) \<le> \<bar>S\<bar> * \<bar>1 + d1\<bar>"
    using S(1) f1(1) by (intro mult_mono) simp_all
  then have b1: "1 / 2 ^ 1000 \<le> \<bar>S * (1 + d1)\<bar>"
    by (simp add: abs_mult)
  have "\<bar>S\<bar> * \<bar>1 + d1\<bar> \<le> 2 ^ 200 * 2"
    using S(2) f1(2) by (intro mult_mono) simp_all
  then have b2: "\<bar>S * (1 + d1)\<bar> \<le> 2 ^ 1000"
    by (simp add: abs_mult)
  obtain d2 where d2: "round_double (S * (1 + d1)) = Fin (S * (1 + d1) * (1 + d2))"
      "\<bar>d2\<bar> \<le> 1 / 2 ^ 53"
    using round_double_rel_ordinary [OF b1 b2] by blast
  have ms: "ddiv (Fin ss) r = Fin (S * (1 + d1) * (1 + d2))"
    using r0 by (simp add: ddiv_def x2 d2(1))
  note f2 = rel_factor_bounds [OF d2(2)]
  \<comment> \<open>the slope \<open>maxTorque / maxSpeed\<close>\<close>
  have "(1 / 2 ^ 200) / 2 ^ 200 \<le> \<bar>M\<bar> / \<bar>S\<bar>"
    using M(1) S by (intro frac_le) simp_all
  moreover have "(1::real) / 2 ^ 1000 \<le> (1 / 2 ^ 200) / 2 ^ 200"
    by simp
  ultimately have c1: "1 / 2 ^ 1000 \<le> \<bar>M / S\<bar>"
    unfolding abs_divide by linarith
  have "\<bar>M\<bar> / \<bar>S\<bar> \<le> 2 ^ 200 / (1 / 2 ^ 200)"
    using M(2) S by (intro frac_le) simp_all
  moreover have "(2::real) ^ 200 / (1 / 2 ^ 200) \<le> 2 ^ 1000"
    by simp
  ultimately have c2: "\<bar>M / S\<bar> \<le> 2 ^ 1000"
    unfolding abs_divide by linarith
  obtain d3 where d3: "round_double (M / S) = Fin (M / S * (1 + d3))" "\<bar>d3\<bar> \<le> 1 / 2 ^ 53"
    using round_double_rel_ordinary [OF c1 c2] by blast
  have q: "ddiv (Fin M) S = Fin (M / S * (1 + d3))"
    using S0 by (simp add: ddiv_def d3(1))
  note f3 = rel_factor_bounds [OF d3(2)]
  \<comment> \<open>their product\<close>
  have x4: "S * (1 + d1) * (1 + d2) * (M / S * (1 + d3)) = M * ((1 + d1) * (1 + d2) * (1 + d3))"
    using S0 by simp
  have g2: "(1 / 2) * (1 / 2) \<le> \<bar>1 + d1\<bar> * \<bar>1 + d2\<bar>"
    by (rule mult_mono [OF f1(1) f2(1)]) simp_all
  have g3: "(1 / 2) * (1 / 2) * (1 / 2) \<le> \<bar>1 + d1\<bar> * \<bar>1 + d2\<bar> * \<bar>1 + d3\<bar>"
    by (rule mult_mono [OF g2 f3(1)]) simp_all
  have "(1 / 2 ^ 200) * ((1 / 2) * (1 / 2) * (1 / 2)) \<le>
      \<bar>M\<bar> * (\<bar>1 + d1\<bar> * \<bar>1 + d2\<bar> * \<bar>1 + d3\<bar>)"
    by (rule mult_mono [OF M(1) g3]) simp_all
  moreover have "(1::real) / 2 ^ 1000 \<le> (1 / 2 ^ 200) * ((1 / 2) * (1 / 2) * (1 / 2))"
    by simp
  ultimately have e1: "1 / 2 ^ 1000 \<le> \<bar>M * ((1 + d1) * (1 + d2) * (1 + d3))\<bar>"
    unfolding abs_mult by linarith
  have h2: "\<bar>1 + d1\<bar> * \<bar>1 + d2\<bar> \<le> 2 * 2"
    by (rule mult_mono [OF f1(2) f2(2)]) simp_all
  have h3: "\<bar>1 + d1\<bar> * \<bar>1 + d2\<bar> * \<bar>1 + d3\<bar> \<le> 2 * 2 * 2"
    by (rule mult_mono [OF h2 f3(2)]) simp_all
  have "\<bar>M\<bar> * (\<bar>1 + d1\<bar> * \<bar>1 + d2\<bar> * \<bar>1 + d3\<bar>) \<le> 2 ^ 200 * (2 * 2 * 2)"
    by (rule mult_mono [OF M(2) h3]) simp_all
  moreover have "(2::real) ^ 200 * (2 * 2 * 2) \<le> 2 ^ 1000"
    by simp
  ultimately have e2: "\<bar>M * ((1 + d1) * (1 + d2) * (1 + d3))\<bar> \<le> 2 ^ 1000"
    unfolding abs_mult by linarith
  obtain d4 where d4: "round_double (M * ((1 + d1) * (1 + d2) * (1 + d3))) =
        Fin (M * ((1 + d1) * (1 + d2) * (1 + d3)) * (1 + d4))" "\<bar>d4\<bar> \<le> 1 / 2 ^ 53"
    using round_double_rel_ordinary [OF e1 e2] by blast
  define PI where "PI = (1 + d1) * (1 + d2) * (1 + d3) * (1 + d4)"
  have "dmul (ddiv (Fin ss) r) (ddiv (Fin M) S) =
      round_double (S * (1 + d1) * (1 + d2) * (M / S * (1 + d3)))"
    unfolding ms q by (simp only: dmul_def double.case)
  also have "\<dots> = Fin (M * ((1 + d1) * (1 + d2) * (1 + d3)) * (1 + d4))"
    unfolding x4 by (rule d4(1))
  also have "M * ((1 + d1) * (1 + d2) * (1 + d3)) * (1 + d4) = M * PI"
    unfolding PI_def by (simp only: mult.assoc)
  finally have p: "dmul (ddiv (Fin ss) r) (ddiv (Fin M) S) = Fin (M * PI)" .
  have PI: "\<bar>PI - 1\<bar> \<le> 5 / 2 ^ 53"
    unfolding PI_def by (rule four_roundings [OF d1(2) d2(2) d3(2) d4(2)])
  \<comment> \<open>the difference\<close>
  define A where "A = \<bar>M\<bar>"
  have A: "1 / 2 ^ 200 \<le> A" "A \<le> 2 ^ 200"
    using M by (simp_all add: A_def)
  have "M - M * PI = M * (1 - PI)"
    by (simp add: algebra_simps)
  then have "\<bar>M - M * PI\<bar> = A * \<bar>PI - 1\<bar>"
    by (simp add: abs_mult A_def abs_minus_commute)
  also have "\<dots> \<le> A * (5 / 2 ^ 53)"
    using PI A(1) by (intro mult_left_mono) simp_all
  finally have x5: "\<bar>M - M * PI\<bar> \<le> A * (5 / 2 ^ 53)" .
  have "\<bar>M - M * PI\<bar> \<le> 2 ^ 1023"
  proof -
    have "A * (5 / 2 ^ 53) \<le> 2 ^ 200 * (5 / 2 ^ 53)"
      using A(2) by (intro mult_right_mono) simp_all
    also have "\<dots> \<le> (2::real) ^ 1023"
      by simp
    finally show ?thesis
      using x5 by linarith
  qed
  then obtain mt0 where mt0: "round_double (M - M * PI) = Fin mt0"
      "\<bar>mt0 - (M - M * PI)\<bar> \<le> \<bar>M - M * PI\<bar> / 2 ^ 53 + 1 / 2 ^ 1075"
    using round_double_error by blast
  have eta: "1 / 2 ^ 1075 \<le> A * (1 / 2 ^ 875)"
  proof -
    have "(1::real) / 2 ^ 1075 = (1 / 2 ^ 200) * (1 / 2 ^ 875)"
      by simp
    also have "\<dots> \<le> A * (1 / 2 ^ 875)"
      using A(1) by (intro mult_right_mono) simp_all
    finally show ?thesis .
  qed
  have "\<bar>M - M * PI\<bar> / 2 ^ 53 \<le> A * (5 / 2 ^ 53) / 2 ^ 53"
    using x5 by (intro divide_right_mono) simp_all
  with mt0(2) x5 eta have "\<bar>mt0\<bar> \<le> A * (5 / 2 ^ 53) + A * (5 / 2 ^ 53) / 2 ^ 53 + A * (1 / 2 ^ 875)"
    by linarith
  also have "\<dots> = A * (5 / 2 ^ 53 + 5 / 2 ^ 53 / 2 ^ 53 + 1 / 2 ^ 875)"
    by (simp add: algebra_simps)
  also have "\<dots> \<le> A * (6 / 2 ^ 53)"
    using A(1) by (intro mult_left_mono) simp_all
  finally have m0: "\<bar>mt0\<bar> \<le> A * (6 / 2 ^ 53)" .
  \<comment> \<open>full throttle\<close>
  have "\<bar>mt0 * 1\<bar> \<le> 2 ^ 1023"
  proof -
    have "A * (6 / 2 ^ 53) \<le> 2 ^ 200 * (6 / 2 ^ 53)"
      using A(2) by (intro mult_right_mono) simp_all
    also have "\<dots> \<le> (2::real) ^ 1023"
      by simp
    finally show ?thesis
      using m0 by simp
  qed
  then obtain mt where mt: "round_double (mt0 * 1) = Fin mt"
      "\<bar>mt - mt0 * 1\<bar> \<le> \<bar>mt0 * 1\<bar> / 2 ^ 53 + 1 / 2 ^ 1075"
    using round_double_error by blast
  have "\<bar>mt0 * 1\<bar> / 2 ^ 53 \<le> A * (6 / 2 ^ 53) / 2 ^ 53"
    using m0 by (intro divide_right_mono) simp_all
  with mt(2) m0 eta have "\<bar>mt\<bar> \<le> A * (6 / 2 ^ 53) + A * (6 / 2 ^ 53) / 2 ^ 53 + A * (1 / 2 ^ 875)"
    by simp
  also have "\<dots> = A * (6 / 2 ^ 53 + 6 / 2 ^ 53 / 2 ^ 53 + 1 / 2 ^ 875)"
    by (simp add: algebra_simps)
  also have "\<dots> \<le> A * (1 / 2 ^ 50)"
    using A(1) by (intro mult_left_mono) simp_all
  finally have "\<bar>mt\<bar> \<le> \<bar>M\<bar> / 2 ^ 50"
    by (simp add: A_def)
  moreover have "dsub (Fin M) (dmul (ddiv (Fin ss) r) (ddiv (Fin M) S)) = Fin mt0"
    unfolding p by (simp add: dsub_def mt0(1))
  then have "dmul (dsub (Fin M) (dmul (ddiv (Fin ss) r) (ddiv (Fin M) S))) (Fin 1) = Fin mt"
    using mt(1) by (simp add: dmul_def)
  ultimately show ?thesis
    by (simp add: dabs_le_def)
qed

text \<open>
  A motor speed that exceeds the maximum speed by more than the rounding errors gives
  a negative motor torque.
\<close>

lemma torque_negative_beyond_max_speed:
  fixes M S ms th :: real
  assumes M: "1 / 2 ^ 200 \<le> M" "M \<le> 2 ^ 200"
    and S: "1 / 2 ^ 200 \<le> S" "S \<le> 2 ^ 200"
    and th: "1 / 2 ^ 200 \<le> th" "th \<le> 2 ^ 200"
    and ms: "S * (1 + 1 / 2 ^ 50) \<le> ms" "ms \<le> 2 ^ 200"
  shows "\<exists>v. v < 0 \<and> dmul (dsub (Fin M) (dmul (Fin ms) (ddiv (Fin M) S))) (Fin th) = Fin v"
proof -
  have z: "(0::real) < 1 / 2 ^ 200"
    by simp
  have pos: "0 < M" "0 < S" "0 < th"
    using M(1) S(1) th(1) z by linarith+
  have "S * 1 \<le> S * (1 + 1 / 2 ^ 50)"
    using pos(2) by (intro mult_left_mono) simp_all
  with ms(1) pos(2) have mspos: "0 < ms"
    by linarith
  \<comment> \<open>the slope\<close>
  have "(1 / 2 ^ 200) / 2 ^ 200 \<le> M / S"
    using M(1) S pos by (intro frac_le) simp_all
  moreover have "(1::real) / 2 ^ 1000 \<le> (1 / 2 ^ 200) / 2 ^ 200"
    by simp
  ultimately have c1: "1 / 2 ^ 1000 \<le> \<bar>M / S\<bar>"
    by linarith
  have cu: "M / S \<le> 2 ^ 200 / (1 / 2 ^ 200)"
    using M(2) S pos by (intro frac_le) simp_all
  moreover have "(2::real) ^ 200 / (1 / 2 ^ 200) \<le> 2 ^ 1000"
    by simp
  moreover have MS: "0 < M / S"
    using pos by simp
  ultimately have c2: "\<bar>M / S\<bar> \<le> 2 ^ 1000"
    by linarith
  obtain d3 where d3: "round_double (M / S) = Fin (M / S * (1 + d3))" "\<bar>d3\<bar> \<le> 1 / 2 ^ 53"
    using round_double_rel_ordinary [OF c1 c2] by blast
  note f3 = rel_factor_bounds [OF d3(2)]
  define q where "q = M / S * (1 + d3)"
  have q: "ddiv (Fin M) S = Fin q"
    using pos(2) by (simp add: ddiv_def d3(1) q_def)
  have qlow: "M / S * (1 - 1 / 2 ^ 53) \<le> q"
    unfolding q_def using MS f3(3) by (intro mult_left_mono) simp_all
  have "1 + d3 \<le> 2"
    using f3(2) by linarith
  then have "M / S * (1 + d3) \<le> (2 ^ 200 / (1 / 2 ^ 200)) * 2"
    using f3(4) by (intro mult_mono [OF cu]) simp_all
  then have qup: "q \<le> 2 ^ 401"
    by (simp add: q_def)
  have qpos: "0 < q"
    unfolding q_def using MS f3(4) by (rule mult_pos_pos)
  \<comment> \<open>motor speed times slope\<close>
  have "0 \<le> M / S * (1 - 1 / 2 ^ 53)"
    using MS by simp
  then have "(S * (1 + 1 / 2 ^ 50)) * (M / S * (1 - 1 / 2 ^ 53)) \<le> ms * q"
    using mspos by (intro mult_mono [OF ms(1) qlow]) simp_all
  moreover have "(S * (1 + 1 / 2 ^ 50)) * (M / S * (1 - 1 / 2 ^ 53)) =
      M * ((1 + 1 / 2 ^ 50) * (1 - 1 / 2 ^ 53))"
    using pos(2) by simp
  ultimately have x4low: "M * ((1 + 1 / 2 ^ 50) * (1 - 1 / 2 ^ 53)) \<le> ms * q"
    by simp
  have "M * 1 \<le> M * ((1 + 1 / 2 ^ 50) * (1 - 1 / 2 ^ 53))"
    using pos(1) by (intro mult_left_mono) simp_all
  with x4low M(1) have x4M: "1 / 2 ^ 200 \<le> ms * q"
    by linarith
  have x4pos: "0 < ms * q"
    using mspos qpos by (rule mult_pos_pos)
  have "ms * q \<le> 2 ^ 200 * 2 ^ 401"
    using qpos by (intro mult_mono [OF ms(2) qup]) simp_all
  then have x4up: "ms * q \<le> 2 ^ 601"
    by simp
  have e1: "1 / 2 ^ 1000 \<le> \<bar>ms * q\<bar>"
  proof -
    have "(1::real) / 2 ^ 1000 \<le> 1 / 2 ^ 200"
      by simp
    with x4M x4pos show ?thesis
      by linarith
  qed
  have e2: "\<bar>ms * q\<bar> \<le> 2 ^ 1000"
  proof -
    have "(2::real) ^ 601 \<le> 2 ^ 1000"
      by simp
    with x4up x4pos show ?thesis
      by linarith
  qed
  obtain d4 where d4: "round_double (ms * q) = Fin (ms * q * (1 + d4))" "\<bar>d4\<bar> \<le> 1 / 2 ^ 53"
    using round_double_rel_ordinary [OF e1 e2] by blast
  note f4 = rel_factor_bounds [OF d4(2)]
  define p where "p = ms * q * (1 + d4)"
  have p: "dmul (Fin ms) (ddiv (Fin M) S) = Fin p"
    by (simp only: q dmul_Fin d4(1) p_def)
  have "M * ((1 + 1 / 2 ^ 50) * (1 - 1 / 2 ^ 53)) * (1 - 1 / 2 ^ 53) \<le> ms * q * (1 + d4)"
    using x4pos by (intro mult_mono [OF x4low f4(3)]) simp_all
  moreover have "M * (1 + 5 / 2 ^ 53) \<le>
      M * ((1 + 1 / 2 ^ 50) * (1 - 1 / 2 ^ 53)) * (1 - 1 / 2 ^ 53)"
  proof -
    have "(1::real) + 5 / 2 ^ 53 \<le> ((1 + 1 / 2 ^ 50) * (1 - 1 / 2 ^ 53)) * (1 - 1 / 2 ^ 53)"
      by simp
    then have "M * (1 + 5 / 2 ^ 53) \<le>
        M * (((1 + 1 / 2 ^ 50) * (1 - 1 / 2 ^ 53)) * (1 - 1 / 2 ^ 53))"
      using pos(1) by (intro mult_left_mono) simp_all
    then show ?thesis
      by (simp only: mult.assoc)
  qed
  ultimately have plow: "M + M * (5 / 2 ^ 53) \<le> p"
    unfolding p_def by (simp add: algebra_simps)
  have "1 + d4 \<le> 2"
    using f4(2) by linarith
  then have "ms * q * (1 + d4) \<le> 2 ^ 601 * 2"
    using f4(4) by (intro mult_mono [OF x4up]) simp_all
  then have pup: "p \<le> 2 ^ 602"
    by (simp add: p_def)
  \<comment> \<open>the difference is negative\<close>
  have low5: "M * (5 / 2 ^ 53) \<le> p - M"
    using plow by linarith
  have "(1 / 2 ^ 200) * (5 / 2 ^ 53) \<le> M * (5 / 2 ^ 53)"
    using M(1) by (intro mult_right_mono) simp_all
  then have low5': "5 / 2 ^ 253 \<le> p - M"
    using low5 by simp
  have "(0::real) < 5 / 2 ^ 253"
    by simp
  with low5' have x5neg: "M - p < 0"
    by linarith
  have g1: "1 / 2 ^ 1000 \<le> \<bar>M - p\<bar>"
  proof -
    have "(1::real) / 2 ^ 1000 \<le> 5 / 2 ^ 253"
      by simp
    with low5' show ?thesis
      by linarith
  qed
  have g2: "\<bar>M - p\<bar> \<le> 2 ^ 1000"
  proof -
    have "(2::real) ^ 602 \<le> 2 ^ 1000"
      by simp
    with pup pos(1) x5neg show ?thesis
      by linarith
  qed
  obtain d5 where d5: "round_double (M - p) = Fin ((M - p) * (1 + d5))" "\<bar>d5\<bar> \<le> 1 / 2 ^ 53"
    using round_double_rel_ordinary [OF g1 g2] by blast
  note f5 = rel_factor_bounds [OF d5(2)]
  define mt0 where "mt0 = (M - p) * (1 + d5)"
  have mt0: "dsub (Fin M) (dmul (Fin ms) (ddiv (Fin M) S)) = Fin mt0"
    by (simp only: p dsub_Fin d5(1) mt0_def)
  have "1 / 2 \<le> 1 + d5"
    using f5(3) by simp
  then have "(5 / 2 ^ 253) * (1 / 2) \<le> (p - M) * (1 + d5)"
    by (intro mult_mono' [OF low5']) simp_all
  then have m0low: "5 / 2 ^ 254 \<le> - mt0"
    by (simp add: mt0_def algebra_simps)
  have "p - M \<le> 2 ^ 602" "1 + d5 \<le> 2"
    using pup pos(1) f5(2) by linarith+
  then have "(p - M) * (1 + d5) \<le> 2 ^ 602 * 2"
    using f5(4) by (intro mult_mono) simp_all
  then have m0up: "- mt0 \<le> 2 ^ 603"
    by (simp add: mt0_def algebra_simps)
  \<comment> \<open>times the throttle\<close>
  have "(0::real) < 5 / 2 ^ 254"
    by simp
  with m0low have m0pos: "0 < - mt0"
    by linarith
  have "(5 / 2 ^ 254) * (1 / 2 ^ 200) \<le> (- mt0) * th"
    by (intro mult_mono' [OF m0low th(1)]) simp_all
  moreover have "(1::real) / 2 ^ 1000 \<le> (5 / 2 ^ 254) * (1 / 2 ^ 200)"
    by simp
  moreover have x6neg: "mt0 * th < 0"
    using m0pos pos(3) by (simp add: mult_less_0_iff)
  ultimately have k1: "1 / 2 ^ 1000 \<le> \<bar>mt0 * th\<bar>"
    by (simp add: abs_if)
  have "(- mt0) * th \<le> 2 ^ 603 * 2 ^ 200"
    using pos(3) by (intro mult_mono [OF m0up th(2)]) simp_all
  moreover have "(2::real) ^ 603 * 2 ^ 200 \<le> 2 ^ 1000"
    by simp
  ultimately have k2: "\<bar>mt0 * th\<bar> \<le> 2 ^ 1000"
    using x6neg by (simp add: abs_if)
  obtain d6 where d6: "round_double (mt0 * th) = Fin (mt0 * th * (1 + d6))" "\<bar>d6\<bar> \<le> 1 / 2 ^ 53"
    using round_double_rel_ordinary [OF k1 k2] by blast
  note f6 = rel_factor_bounds [OF d6(2)]
  have "mt0 * th * (1 + d6) < 0"
    using x6neg f6(4) by (simp add: mult_less_0_iff)
  moreover have "dmul (dsub (Fin M) (dmul (Fin ms) (ddiv (Fin M) S))) (Fin th) =
      Fin (mt0 * th * (1 + d6))"
    by (simp only: mt0 dmul_Fin d6(1))
  ultimately show ?thesis
    by blast
qed

text \<open>With the gear ratio \<open>10^20\<close> bounded inputs give small outputs.\<close>

lemma neutral_motor_speed_small:
  fixes ss :: real
  assumes ss: "\<bar>ss\<bar> \<le> 10 ^ 10"
  shows "dabs_le (ddiv (Fin ss) (10 ^ 20)) (2 / 10 ^ 10)"
proof -
  have "\<bar>ss / 10 ^ 20\<bar> = \<bar>ss\<bar> / 10 ^ 20"
    by simp
  also have "\<dots> \<le> 10 ^ 10 / 10 ^ 20"
    using ss by (intro divide_right_mono) simp_all
  finally have x1: "\<bar>ss / 10 ^ 20\<bar> \<le> 1 / 10 ^ 10"
    by simp
  obtain ms where ms: "round_double (ss / 10 ^ 20) = Fin ms"
      "\<bar>ms\<bar> \<le> 1 / 10 ^ 10 * (1 + 1 / 2 ^ 52)"
    using round_double_bounded [OF x1] by auto
  have msE: "ddiv (Fin ss) (10 ^ 20) = Fin ms"
    using ms(1) by (simp add: ddiv_Fin)
  have "(1::real) / 10 ^ 10 * (1 + 1 / 2 ^ 52) \<le> 2 / 10 ^ 10"
    by simp
  with ms(2) have "\<bar>ms\<bar> \<le> 2 / 10 ^ 10"
    by linarith
  then show ?thesis
    by (simp only: msE dabs_le_def double.case)
qed

lemma neutral_shaft_torque_small:
  fixes M S th ss :: real
  assumes ss: "\<bar>ss\<bar> \<le> 10 ^ 10" and th: "\<bar>th\<bar> \<le> 1" and M: "\<bar>M\<bar> \<le> 10 ^ 10"
    and S: "1 \<le> \<bar>S\<bar>"
  shows "dabs_le
           (ddiv (dmul (dsub (Fin M) (dmul (ddiv (Fin ss) (10 ^ 20)) (ddiv (Fin M) S))) (Fin th))
              (10 ^ 20))
           (2 / 10 ^ 10)"
proof -
  have S0: "S \<noteq> 0"
    using S by auto
  \<comment> \<open>motor speed\<close>
  have "\<bar>ss / 10 ^ 20\<bar> = \<bar>ss\<bar> / 10 ^ 20"
    by simp
  also have "\<dots> \<le> 10 ^ 10 / 10 ^ 20"
    using ss by (intro divide_right_mono) simp_all
  finally have x1: "\<bar>ss / 10 ^ 20\<bar> \<le> 1 / 10 ^ 10"
    by simp
  obtain ms where ms: "round_double (ss / 10 ^ 20) = Fin ms"
      "\<bar>ms\<bar> \<le> 1 / 10 ^ 10 * (1 + 1 / 2 ^ 52)"
    using round_double_bounded [OF x1] by auto
  have msE: "ddiv (Fin ss) (10 ^ 20) = Fin ms"
    using ms(1) by (simp add: ddiv_Fin)
  have ms1: "\<bar>ms\<bar> \<le> 101 / (100 * 10 ^ 10)"
  proof -
    have "(1::real) / 10 ^ 10 * (1 + 1 / 2 ^ 52) \<le> 101 / (100 * 10 ^ 10)"
      by simp
    with ms(2) show ?thesis
      by linarith
  qed
  \<comment> \<open>slope\<close>
  have "\<bar>M / S\<bar> = \<bar>M\<bar> / \<bar>S\<bar>"
    by (simp add: abs_divide)
  also have "\<dots> \<le> 10 ^ 10 / 1"
    using M S by (intro frac_le) simp_all
  finally have x2: "\<bar>M / S\<bar> \<le> 10 ^ 10"
    by simp
  obtain q where q: "round_double (M / S) = Fin q" "\<bar>q\<bar> \<le> 10 ^ 10 * (1 + 1 / 2 ^ 52)"
    using round_double_bounded [OF x2] by auto
  have qE: "ddiv (Fin M) S = Fin q"
    using S0 by (simp add: ddiv_Fin q(1))
  have q1: "\<bar>q\<bar> \<le> 101 * 10 ^ 8"
  proof -
    have "(10::real) ^ 10 * (1 + 1 / 2 ^ 52) \<le> 101 * 10 ^ 8"
      by simp
    with q(2) show ?thesis
      by linarith
  qed
  \<comment> \<open>product\<close>
  have "\<bar>ms\<bar> * \<bar>q\<bar> \<le> (101 / (100 * 10 ^ 10)) * (101 * 10 ^ 8)"
    by (intro mult_mono [OF ms1 q1]) simp_all
  then have x3: "\<bar>ms * q\<bar> \<le> 2"
    by (simp add: abs_mult)
  obtain p where p: "round_double (ms * q) = Fin p" "\<bar>p\<bar> \<le> 2 * (1 + 1 / 2 ^ 52)"
    using round_double_bounded [OF x3] by auto
  have pE: "dmul (ddiv (Fin ss) (10 ^ 20)) (ddiv (Fin M) S) = Fin p"
    by (simp only: msE qE dmul_Fin p(1))
  have p1: "\<bar>p\<bar> \<le> 3"
    using p(2) by simp
  \<comment> \<open>difference\<close>
  have x4: "\<bar>M - p\<bar> \<le> 10 ^ 10 + 3"
    using M p1 by linarith
  obtain mt0 where mt0: "round_double (M - p) = Fin mt0"
      "\<bar>mt0\<bar> \<le> (10 ^ 10 + 3) * (1 + 1 / 2 ^ 52)"
    using round_double_bounded [OF x4] by auto
  have mt0E: "dsub (Fin M) (dmul (ddiv (Fin ss) (10 ^ 20)) (ddiv (Fin M) S)) = Fin mt0"
    by (simp only: pE dsub_Fin mt0(1))
  have m01: "\<bar>mt0\<bar> \<le> 101 * 10 ^ 8"
  proof -
    have "((10::real) ^ 10 + 3) * (1 + 1 / 2 ^ 52) \<le> 101 * 10 ^ 8"
      by simp
    with mt0(2) show ?thesis
      by linarith
  qed
  \<comment> \<open>throttle\<close>
  have "\<bar>mt0\<bar> * \<bar>th\<bar> \<le> (101 * 10 ^ 8) * 1"
    by (intro mult_mono [OF m01 th]) simp_all
  then have x5: "\<bar>mt0 * th\<bar> \<le> 101 * 10 ^ 8"
    by (simp add: abs_mult)
  obtain mt where mt: "round_double (mt0 * th) = Fin mt"
      "\<bar>mt\<bar> \<le> 101 * 10 ^ 8 * (1 + 1 / 2 ^ 52)"
    using round_double_bounded [OF x5] by auto
  have mtE: "dmul (dsub (Fin M) (dmul (ddiv (Fin ss) (10 ^ 20)) (ddiv (Fin M) S))) (Fin th) = Fin mt"
    by (simp only: mt0E dmul_Fin mt(1))
  have mt1: "\<bar>mt\<bar> \<le> 102 * 10 ^ 8"
  proof -
    have "(101::real) * 10 ^ 8 * (1 + 1 / 2 ^ 52) \<le> 102 * 10 ^ 8"
      by simp
    with mt(2) show ?thesis
      by linarith
  qed
  \<comment> \<open>shaft torque\<close>
  have "\<bar>mt / 10 ^ 20\<bar> = \<bar>mt\<bar> / 10 ^ 20"
    by simp
  also have "\<dots> \<le> (102 * 10 ^ 8) / 10 ^ 20"
    using mt1 by (intro divide_right_mono) simp_all
  finally have x6: "\<bar>mt / 10 ^ 20\<bar> \<le> 102 / (100 * 10 ^ 10)"
    by simp
  obtain st where st: "round_double (mt / 10 ^ 20) = Fin st"
      "\<bar>st\<bar> \<le> 102 / (100 * 10 ^ 10) * (1 + 1 / 2 ^ 52)"
    using round_double_bounded [OF x6] by auto
  have "(102::real) / (100 * 10 ^ 10) * (1 + 1 / 2 ^ 52) \<le> 2 / 10 ^ 10"
    by simp
  with st(2) have "\<bar>st\<bar> \<le> 2 / 10 ^ 10"
    by linarith
  moreover have "ddiv (dmul (dsub (Fin M) (dmul (ddiv (Fin ss) (10 ^ 20)) (ddiv (Fin M) S)))
      (Fin th)) (10 ^ 20) = Fin st"
    unfolding mtE using st(1) by (simp add: ddiv_Fin)
  ultimately show "dabs_le
           (ddiv (dmul (dsub (Fin M) (dmul (ddiv (Fin ss) (10 ^ 20)) (ddiv (Fin M) S))) (Fin th))
              (10 ^ 20))
           (2 / 10 ^ 10)"
    by (simp only: dabs_le_def double.case)
qed

text \<open>
  C1 (amended). Let the cached gear ratio \<open>r\<close> be nonzero. Then, for every throttle
  and every shaft speed, a call of \<^verbatim>\<open>Update(time, throttle, shaftSpeed)\<close> sets the
  motor speed to \<open>shaftSpeed / r\<close>, the motor torque to
  \<open>(maxTorque - motorSpeed * (maxTorque / maxSpeed)) * throttle\<close> and the shaft torque to
  \<open>motorTorque / r\<close>, each operation being the operation on doubles. In particular:
  throttle 0 gives shaft torque 0 for any shaft speed for which the torque before
  scaling, \<open>maxTorque - motorSpeed * (maxTorque / maxSpeed)\<close>, is finite; throttle 1 with
  shaft speed 0 gives motor torque \<open>maxTorque\<close> when \<open>maxTorque / maxSpeed\<close> is finite;
  throttle 1 with shaft speed \<open>maxSpeed * r\<close> gives a motor torque of magnitude at most
  \<open>2^-50 * |maxTorque|\<close> (zero up to rounding) when maximum torque, maximum speed and
  gear ratio are of ordinary magnitude. Nothing is clamped: with positive maximum
  torque, maximum speed and throttle of ordinary magnitude, a motor speed of at least
  \<open>(1 + 2^-50) * maxSpeed\<close> gives a negative motor torque.
\<close>

theorem Update_torque_curve:
  assumes r: "m_current_gear_ratio s \<noteq> 0"
  shows "m_motorSpeed (ChSimplePowertrain_Update P t throttle shaft_speed s) =
           round_double (shaft_speed / m_current_gear_ratio s) \<and>
         m_motorTorque (ChSimplePowertrain_Update P t throttle shaft_speed s) =
           dmul (dsub (Fin (GetMaxTorque P))
                   (dmul (m_motorSpeed (ChSimplePowertrain_Update P t throttle shaft_speed s))
                         (ddiv (Fin (GetMaxTorque P)) (GetMaxSpeed P))))
                (Fin throttle) \<and>
         m_shaftTorque (ChSimplePowertrain_Update P t throttle shaft_speed s) =
           ddiv (m_motorTorque (ChSimplePowertrain_Update P t throttle shaft_speed s))
                (m_current_gear_ratio s) \<and>
         (dsub (Fin (GetMaxTorque P))
            (dmul (ddiv (Fin shaft_speed) (m_current_gear_ratio s))
                  (ddiv (Fin (GetMaxTorque P)) (GetMaxSpeed P))) \<noteq> NonFin \<longrightarrow>
            m_shaftTorque (ChSimplePowertrain_Update P t 0 shaft_speed s) = Fin 0) \<and>
         (is_double (GetMaxTorque P) \<and>
          ddiv (Fin (GetMaxTorque P)) (GetMaxSpeed P) \<noteq> NonFin \<longrightarrow>
            m_motorTorque (ChSimplePowertrain_Update P t 1 0 s) = Fin (GetMaxTorque P)) \<and>
         (ordinary_magnitude (GetMaxTorque P) \<and> ordinary_magnitude (GetMaxSpeed P) \<and>
          ordinary_magnitude (m_current_gear_ratio s) \<and>
          dmul (Fin (GetMaxSpeed P)) (Fin (m_current_gear_ratio s)) = Fin max_shaft_speed \<longrightarrow>
            dabs_le (m_motorTorque (ChSimplePowertrain_Update P t 1 max_shaft_speed s))
              (\<bar>GetMaxTorque P\<bar> / 2 ^ 50)) \<and>
         (0 < GetMaxTorque P \<and> ordinary_magnitude (GetMaxTorque P) \<and>
          0 < GetMaxSpeed P \<and> ordinary_magnitude (GetMaxSpeed P) \<and>
          0 < throttle \<and> ordinary_magnitude throttle \<and>
          m_motorSpeed (ChSimplePowertrain_Update P t throttle shaft_speed s) = Fin motor_speed \<and>
          GetMaxSpeed P * (1 + 1 / 2 ^ 50) \<le> motor_speed \<and> motor_speed \<le> 2 ^ 200 \<longrightarrow>
            (\<exists>v. v < 0 \<and>
               m_motorTorque (ChSimplePowertrain_Update P t throttle shaft_speed s) = Fin v))"
proof -
  have s1: "m_motorSpeed (ChSimplePowertrain_Update P t throttle shaft_speed s) =
      round_double (shaft_speed / m_current_gear_ratio s)"
    using r by (simp add: Update_fields ddiv_Fin)
  have s2: "m_motorTorque (ChSimplePowertrain_Update P t throttle shaft_speed s) =
      dmul (dsub (Fin (GetMaxTorque P))
              (dmul (m_motorSpeed (ChSimplePowertrain_Update P t throttle shaft_speed s))
                    (ddiv (Fin (GetMaxTorque P)) (GetMaxSpeed P))))
           (Fin throttle)"
    by (simp only: Update_fields)
  have s3: "m_shaftTorque (ChSimplePowertrain_Update P t throttle shaft_speed s) =
      ddiv (m_motorTorque (ChSimplePowertrain_Update P t throttle shaft_speed s))
           (m_current_gear_ratio s)"
    by (simp only: Update_fields)
  have c1: "dsub (Fin (GetMaxTorque P))
        (dmul (ddiv (Fin shaft_speed) (m_current_gear_ratio s))
              (ddiv (Fin (GetMaxTorque P)) (GetMaxSpeed P))) \<noteq> NonFin \<longrightarrow>
      m_shaftTorque (ChSimplePowertrain_Update P t 0 shaft_speed s) = Fin 0"
    unfolding Update_fields using zero_throttle [OF r] by blast
  have c2: "is_double (GetMaxTorque P) \<and>
      ddiv (Fin (GetMaxTorque P)) (GetMaxSpeed P) \<noteq> NonFin \<longrightarrow>
      m_motorTorque (ChSimplePowertrain_Update P t 1 0 s) = Fin (GetMaxTorque P)"
    unfolding Update_fields using full_throttle_standstill [OF r] by blast
  have c3: "ordinary_magnitude (GetMaxTorque P) \<and> ordinary_magnitude (GetMaxSpeed P) \<and>
      ordinary_magnitude (m_current_gear_ratio s) \<and>
      dmul (Fin (GetMaxSpeed P)) (Fin (m_current_gear_ratio s)) = Fin max_shaft_speed \<longrightarrow>
      dabs_le (m_motorTorque (ChSimplePowertrain_Update P t 1 max_shaft_speed s))
        (\<bar>GetMaxTorque P\<bar> / 2 ^ 50)"
    unfolding Update_fields ordinary_magnitude_def using torque_at_max_speed by blast
  have c4: "0 < GetMaxTorque P \<and> ordinary_magnitude (GetMaxTorque P) \<and>
      0 < GetMaxSpeed P \<and> ordinary_magnitude (GetMaxSpeed P) \<and>
      0 < throttle \<and> ordinary_magnitude throttle \<and>
      m_motorSpeed (ChSimplePowertrain_Update P t throttle shaft_speed s) = Fin motor_speed \<and>
      GetMaxSpeed P * (1 + 1 / 2 ^ 50) \<le> motor_speed \<and> motor_speed \<le> 2 ^ 200 \<longrightarrow>
      (\<exists>v. v < 0 \<and>
         m_motorTorque (ChSimplePowertrain_Update P t throttle shaft_speed s) = Fin v)"
  proof (intro impI, elim conjE)
    assume h: "0 < GetMaxTorque P" "ordinary_magnitude (GetMaxTorque P)"
      "0 < GetMaxSpeed P" "ordinary_magnitude (GetMaxSpeed P)"
      "0 < throttle" "ordinary_magnitude throttle"
      "m_motorSpeed (ChSimplePowertrain_Update P t throttle shaft_speed s) = Fin motor_speed"
      "GetMaxSpeed P * (1 + 1 / 2 ^ 50) \<le> motor_speed" "motor_speed \<le> 2 ^ 200"
    have ms: "ddiv (Fin shaft_speed) (m_current_gear_ratio s) = Fin motor_speed"
      using h(7) by (simp only: Update_fields)
    have b: "1 / 2 ^ 200 \<le> GetMaxTorque P" "GetMaxTorque P \<le> 2 ^ 200"
      "1 / 2 ^ 200 \<le> GetMaxSpeed P" "GetMaxSpeed P \<le> 2 ^ 200"
      "1 / 2 ^ 200 \<le> throttle" "throttle \<le> 2 ^ 200"
      using h(1-6) by (simp_all add: ordinary_magnitude_def)
    show "\<exists>v. v < 0 \<and>
        m_motorTorque (ChSimplePowertrain_Update P t throttle shaft_speed s) = Fin v"
      unfolding Update_fields ms
      by (rule torque_negative_beyond_max_speed [OF b h(8) h(9)])
  qed
  from s1 s2 s3 c1 c2 c3 c4 show ?thesis
    by (intro conjI)
qed

text \<open>
  The theorem at gear ratio 4, maximum torque 300 and maximum speed 600: half throttle
  at shaft speed 6000 (motor speed 1500, above the maximum) gives motor torque -225
  and shaft torque -56.25; shaft speed \<open>600 * 4 = 2400\<close> at full throttle gives motor
  torque 0.
\<close>

theorem Update_torque_curve_witness:
  "(4::real) \<noteq> 0 \<and> is_double 300 \<and> ddiv (Fin 300) 600 = Fin (1 / 2) \<and>
   ordinary_magnitude 300 \<and> ordinary_magnitude 600 \<and> ordinary_magnitude 4 \<and>
   ordinary_magnitude (1 / 2) \<and> dmul (Fin 600) (Fin 4) = Fin 2400 \<and>
   (600::real) * (1 + 1 / 2 ^ 50) \<le> 1500 \<and> (1500::real) \<le> 2 ^ 200 \<and>
   m_motorSpeed (ChSimplePowertrain_Update
        \<lparr>GetForwardGearRatio = 4, GetReverseGearRatio = - 4, GetMaxTorque = 300, GetMaxSpeed = 600\<rparr>
        0 (1 / 2) 6000
        \<lparr>m_drive_mode = FORWARD, m_current_gear_ratio = 4, m_motorSpeed = Fin 0,
          m_motorTorque = Fin 0, m_shaftTorque = Fin 0\<rparr>) = Fin 1500 \<and>
   m_motorTorque (ChSimplePowertrain_Update
        \<lparr>GetForwardGearRatio = 4, GetReverseGearRatio = - 4, GetMaxTorque = 300, GetMaxSpeed = 600\<rparr>
        0 (1 / 2) 6000
        \<lparr>m_drive_mode = FORWARD, m_current_gear_ratio = 4, m_motorSpeed = Fin 0,
          m_motorTorque = Fin 0, m_shaftTorque = Fin 0\<rparr>) = Fin (- 225) \<and>
   m_shaftTorque (ChSimplePowertrain_Update
        \<lparr>GetForwardGearRatio = 4, GetReverseGearRatio = - 4, GetMaxTorque = 300, GetMaxSpeed = 600\<rparr>
        0 (1 / 2) 6000
        \<lparr>m_drive_mode = FORWARD, m_current_gear_ratio = 4, m_motorSpeed = Fin 0,
          m_motorTorque = Fin 0, m_shaftTorque = Fin 0\<rparr>) = Fin (- 225 / 4) \<and>
   m_shaftTorque (ChSimplePowertrain_Update
        \<lparr>GetForwardGearRatio = 4, GetReverseGearRatio = - 4, GetMaxTorque = 300, GetMaxSpeed = 600\<rparr>
        0 0 6000
        \<lparr>m_drive_mode = FORWARD, m_current_gear_ratio = 4, m_motorSpeed = Fin 0,
          m_motorTorque = Fin 0, m_shaftTorque = Fin 0\<rparr>) = Fin 0 \<and>
   m_motorTorque (ChSimplePowertrain_Update
        \<lparr>GetForwardGearRatio = 4, GetReverseGearRatio = - 4, GetMaxTorque = 300, GetMaxSpeed = 600\<rparr>
        0 1 0
        \<lparr>m_drive_mode = FORWARD, m_current_gear_ratio = 4, m_motorSpeed = Fin 0,
          m_motorTorque = Fin 0, m_shaftTorque = Fin 0\<rparr>) = Fin 300 \<and>
   dabs_le (m_motorTorque (ChSimplePowertrain_Update
        \<lparr>GetForwardGearRatio = 4, GetReverseGearRatio = - 4, GetMaxTorque = 300, GetMaxSpeed = 600\<rparr>
        0 1 2400
        \<lparr>m_drive_mode = FORWARD, m_current_gear_ratio = 4, m_motorSpeed = Fin 0,
          m_motorTorque = Fin 0, m_shaftTorque = Fin 0\<rparr>)) (\<bar>300\<bar> / 2 ^ 50)"
  using Update_torque_curve
    [of "\<lparr>m_drive_mode = FORWARD, m_current_gear_ratio = 4, m_motorSpeed = Fin 0,
          m_motorTorque = Fin 0, m_shaftTorque = Fin 0\<rparr>"
        "\<lparr>GetForwardGearRatio = 4, GetReverseGearRatio = - 4, GetMaxTorque = 300, GetMaxSpeed = 600\<rparr>"
        0 "1 / 2" 6000 2400 1500]
  by (simp add: Update_fields double_ops round_eval is_double_def ordinary_magnitude_def
        dabs_le_def)

text \<open>
  C1 as stated fails, the gear ratio being nonzero in each case. With maximum torque
  1, maximum speed 49 and gear ratio 4, full throttle at shaft speed \<open>49 * 4 = 196\<close>
  gives motor torque \<open>2^-53\<close>, not 0: the product \<open>49 * (1 / 49)\<close> rounds to \<open>1 - 2^-53\<close>.
  With maximum speed 0, \<open>maxTorque / maxSpeed\<close> is a division by zero and the torques
  are not finite. With shaft speed \<open>2^1023\<close> and gear ratio \<open>1 / 2\<close> the motor speed
  overflows, and throttle 0 does not give shaft torque 0.
\<close>

theorem Update_rounding_counterexample:
  "(4::real) \<noteq> 0 \<and> (1 / 2 :: real) \<noteq> 0 \<and> dmul (Fin 49) (Fin 4) = Fin 196 \<and>
   m_motorTorque (ChSimplePowertrain_Update
        \<lparr>GetForwardGearRatio = 4, GetReverseGearRatio = - 4, GetMaxTorque = 1, GetMaxSpeed = 49\<rparr>
        0 1 196
        \<lparr>m_drive_mode = FORWARD, m_current_gear_ratio = 4, m_motorSpeed = Fin 0,
          m_motorTorque = Fin 0, m_shaftTorque = Fin 0\<rparr>) = Fin (1 / 2 ^ 53) \<and>
   m_motorTorque (ChSimplePowertrain_Update
        \<lparr>GetForwardGearRatio = 4, GetReverseGearRatio = - 4, GetMaxTorque = 300, GetMaxSpeed = 0\<rparr>
        0 1 (0 * 4)
        \<lparr>m_drive_mode = FORWARD, m_current_gear_ratio = 4, m_motorSpeed = Fin 0,
          m_motorTorque = Fin 0, m_shaftTorque = Fin 0\<rparr>) = NonFin \<and>
   m_motorTorque (ChSimplePowertrain_Update
        \<lparr>GetForwardGearRatio = 4, GetReverseGearRatio = - 4, GetMaxTorque = 300, GetMaxSpeed = 0\<rparr>
        0 1 0
        \<lparr>m_drive_mode = FORWARD, m_current_gear_ratio = 4, m_motorSpeed = Fin 0,
          m_motorTorque = Fin 0, m_shaftTorque = Fin 0\<rparr>) = NonFin \<and>
   m_shaftTorque (ChSimplePowertrain_Update
        \<lparr>GetForwardGearRatio = 4, GetReverseGearRatio = - 4, GetMaxTorque = 300, GetMaxSpeed = 0\<rparr>
        0 0 2400
        \<lparr>m_drive_mode = FORWARD, m_current_gear_ratio = 4, m_motorSpeed = Fin 0,
          m_motorTorque = Fin 0, m_shaftTorque = Fin 0\<rparr>) = NonFin \<and>
   m_shaftTorque (ChSimplePowertrain_Update
        \<lparr>GetForwardGearRatio = 4, GetReverseGearRatio = - 4, GetMaxTorque = 300, GetMaxSpeed = 600\<rparr>
        0 0 (2 ^ 1023)
        \<lparr>m_drive_mode = FORWARD, m_current_gear_ratio = (1 / 2), m_motorSpeed = Fin 0,
          m_motorTorque = Fin 0, m_shaftTorque = Fin 0\<rparr>) = NonFin"
  by (simp add: Update_fields double_ops round_eval)

lemma Update_calls_gear_ratio:
  "m_current_gear_ratio (Update_calls P calls s) = m_current_gear_ratio s"
proof (induction calls arbitrary: s)
  case Nil
  show ?case by simp
next
  case (Cons c calls)
  obtain t throttle shaft_speed where c: "c = (t, throttle, shaft_speed)"
    by (cases c) auto
  have "m_current_gear_ratio (ChSimplePowertrain_Update P t throttle shaft_speed s) =
          m_current_gear_ratio s"
    by (simp add: ChSimplePowertrain_Update_def Let_def)
  with Cons.IH show ?case
    by (simp add: c)
qed

text \<open>
  C5 (amended). After \<^verbatim>\<open>SetDriveMode(NEUTRAL)\<close> and any number of \<^verbatim>\<open>Update\<close> calls
  the cached gear ratio is \<open>10^20\<close>, which is not zero, so the next \<^verbatim>\<open>Update\<close> divides
  by no zero ratio: it sets the motor speed to \<open>shaftSpeed / 10^20\<close> and the shaft torque
  to \<open>motorTorque / 10^20\<close>. For a shaft speed of magnitude at most \<open>10^10\<close> the motor
  speed is finite and of magnitude at most \<open>2 * 10^-10\<close>; if moreover the throttle has
  magnitude at most 1, the maximum torque magnitude at most \<open>10^10\<close> and the maximum
  speed magnitude at least 1, the shaft torque is finite and of magnitude at most
  \<open>2 * 10^-10\<close>. The two values are close to 0 for inputs of such magnitude, not for
  any throttle and any shaft speed.
\<close>

theorem neutral_scales_down:
  "m_current_gear_ratio (Update_calls P earlier (SetDriveMode P NEUTRAL s)) = 10 ^ 20 \<and>
   m_motorSpeed
     (ChSimplePowertrain_Update P t throttle shaft_speed
        (Update_calls P earlier (SetDriveMode P NEUTRAL s))) =
     round_double (shaft_speed / 10 ^ 20) \<and>
   m_shaftTorque
     (ChSimplePowertrain_Update P t throttle shaft_speed
        (Update_calls P earlier (SetDriveMode P NEUTRAL s))) =
     ddiv
       (m_motorTorque
          (ChSimplePowertrain_Update P t throttle shaft_speed
             (Update_calls P earlier (SetDriveMode P NEUTRAL s))))
       (10 ^ 20) \<and>
   (\<bar>shaft_speed\<bar> \<le> 10 ^ 10 \<longrightarrow>
      dabs_le
        (m_motorSpeed
           (ChSimplePowertrain_Update P t throttle shaft_speed
              (Update_calls P earlier (SetDriveMode P NEUTRAL s))))
        (2 / 10 ^ 10)) \<and>
   (\<bar>shaft_speed\<bar> \<le> 10 ^ 10 \<and> \<bar>throttle\<bar> \<le> 1 \<and>
    \<bar>GetMaxTorque P\<bar> \<le> 10 ^ 10 \<and> 1 \<le> \<bar>GetMaxSpeed P\<bar> \<longrightarrow>
      dabs_le
        (m_shaftTorque
           (ChSimplePowertrain_Update P t throttle shaft_speed
              (Update_calls P earlier (SetDriveMode P NEUTRAL s))))
        (2 / 10 ^ 10))"
proof -
  let ?s = "Update_calls P earlier (SetDriveMode P NEUTRAL s)"
  have r: "m_current_gear_ratio ?s = 10 ^ 20"
    by (simp add: Update_calls_gear_ratio)
  have ms: "m_motorSpeed (ChSimplePowertrain_Update P t throttle shaft_speed ?s) =
      round_double (shaft_speed / 10 ^ 20)"
    unfolding Update_fields r by (simp add: ddiv_Fin)
  have st: "m_shaftTorque (ChSimplePowertrain_Update P t throttle shaft_speed ?s) =
      ddiv (m_motorTorque (ChSimplePowertrain_Update P t throttle shaft_speed ?s)) (10 ^ 20)"
    unfolding Update_fields r by (rule refl)
  have b1: "\<bar>shaft_speed\<bar> \<le> 10 ^ 10 \<longrightarrow>
      dabs_le (m_motorSpeed (ChSimplePowertrain_Update P t throttle shaft_speed ?s))
        (2 / 10 ^ 10)"
    unfolding Update_fields r using neutral_motor_speed_small by blast
  have b2: "\<bar>shaft_speed\<bar> \<le> 10 ^ 10 \<and> \<bar>throttle\<bar> \<le> 1 \<and>
      \<bar>GetMaxTorque P\<bar> \<le> 10 ^ 10 \<and> 1 \<le> \<bar>GetMaxSpeed P\<bar> \<longrightarrow>
      dabs_le (m_shaftTorque (ChSimplePowertrain_Update P t throttle shaft_speed ?s))
        (2 / 10 ^ 10)"
    unfolding Update_fields r using neutral_shaft_torque_small by blast
  from r ms st b1 b2 show ?thesis
    by (intro conjI)
qed

text \<open>
  The theorem in neutral, after one earlier update, at half throttle and shaft speed
  100, with maximum torque 300 and maximum speed 600: the motor speed is the double
  nearest to \<open>10^-18\<close>.
\<close>

theorem neutral_scales_down_witness:
  "\<bar>100::real\<bar> \<le> 10 ^ 10 \<and> \<bar>1 / 2 :: real\<bar> \<le> 1 \<and> \<bar>300::real\<bar> \<le> 10 ^ 10 \<and>
   (1::real) \<le> \<bar>600\<bar> \<and>
   m_current_gear_ratio
     (Update_calls
           \<lparr>GetForwardGearRatio = 4, GetReverseGearRatio = - 4, GetMaxTorque = 300, GetMaxSpeed = 600\<rparr>
           [(0, 1, 2400)]
           (SetDriveMode
             \<lparr>GetForwardGearRatio = 4, GetReverseGearRatio = - 4, GetMaxTorque = 300, GetMaxSpeed = 600\<rparr>
             NEUTRAL
             \<lparr>m_drive_mode = FORWARD, m_current_gear_ratio = 4, m_motorSpeed = Fin 0,
          m_motorTorque = Fin 0, m_shaftTorque = Fin 0\<rparr>)) = 10 ^ 20 \<and>
   m_motorSpeed
     (ChSimplePowertrain_Update
        \<lparr>GetForwardGearRatio = 4, GetReverseGearRatio = - 4, GetMaxTorque = 300, GetMaxSpeed = 600\<rparr>
        0 (1 / 2) 100
        (Update_calls
           \<lparr>GetForwardGearRatio = 4, GetReverseGearRatio = - 4, GetMaxTorque = 300, GetMaxSpeed = 600\<rparr>
           [(0, 1, 2400)]
           (SetDriveMode
             \<lparr>GetForwardGearRatio = 4, GetReverseGearRatio = - 4, GetMaxTorque = 300, GetMaxSpeed = 600\<rparr>
             NEUTRAL
             \<lparr>m_drive_mode = FORWARD, m_current_gear_ratio = 4, m_motorSpeed = Fin 0,
          m_motorTorque = Fin 0, m_shaftTorque = Fin 0\<rparr>))) = Fin (1298074214633707 / 2 ^ 110) \<and>
   dabs_le
     (m_motorSpeed
        (ChSimplePowertrain_Update
        \<lparr>GetForwardGearRatio = 4, GetReverseGearRatio = - 4, GetMaxTorque = 300, GetMaxSpeed = 600\<rparr>
        0 (1 / 2) 100
        (Update_calls
           \<lparr>GetForwardGearRatio = 4, GetReverseGearRatio = - 4, GetMaxTorque = 300, GetMaxSpeed = 600\<rparr>
           [(0, 1, 2400)]
           (SetDriveMode
             \<lparr>GetForwardGearRatio = 4, GetReverseGearRatio = - 4, GetMaxTorque = 300, GetMaxSpeed = 600\<rparr>
             NEUTRAL
             \<lparr>m_drive_mode = FORWARD, m_current_gear_ratio = 4, m_motorSpeed = Fin 0,
          m_motorTorque = Fin 0, m_shaftTorque = Fin 0\<rparr>))))
     (2 / 10 ^ 10) \<and>
   dabs_le
     (m_shaftTorque
        (ChSimplePowertrain_Update
        \<lparr>GetForwardGearRatio = 4, GetReverseGearRatio = - 4, GetMaxTorque = 300, GetMaxSpeed = 600\<rparr>
        0 (1 / 2) 100
        (Update_calls
           \<lparr>GetForwardGearRatio = 4, GetReverseGearRatio = - 4, GetMaxTorque = 300, GetMaxSpeed = 600\<rparr>
           [(0, 1, 2400)]
           (SetDriveMode
             \<lparr>GetForwardGearRatio = 4, GetReverseGearRatio = - 4, GetMaxTorque = 300, GetMaxSpeed = 600\<rparr>
             NEUTRAL
             \<lparr>m_drive_mode = FORWARD, m_current_gear_ratio = 4, m_motorSpeed = Fin 0,
          m_motorTorque = Fin 0, m_shaftTorque = Fin 0\<rparr>))))
     (2 / 10 ^ 10)"
  using neutral_scales_down
    [of "\<lparr>GetForwardGearRatio = 4, GetReverseGearRatio = - 4, GetMaxTorque = 300, GetMaxSpeed = 600\<rparr>"
        "[(0, 1, 2400)]"
        "\<lparr>m_drive_mode = FORWARD, m_current_gear_ratio = 4, m_motorSpeed = Fin 0,
          m_motorTorque = Fin 0, m_shaftTorque = Fin 0\<rparr>"
        0 "1 / 2" 100]
  by (simp add: Update_fields double_ops round_eval dabs_le_def)

text \<open>
  C5 as stated fails for large inputs: in the first update after
  \<^verbatim>\<open>SetDriveMode(NEUTRAL)\<close>, shaft speed \<open>10^20\<close> gives motor speed 1, and shaft speed
  \<open>2^143\<close> at full throttle gives a shaft torque below -557 (maximum torque 300,
  maximum speed 600). Neither is close to 0.
\<close>

theorem neutral_not_near_zero_counterexample:
  "m_motorSpeed
     (ChSimplePowertrain_Update
        \<lparr>GetForwardGearRatio = 4, GetReverseGearRatio = - 4, GetMaxTorque = 300, GetMaxSpeed = 600\<rparr>
        0 1 (10 ^ 20)
        (Update_calls
           \<lparr>GetForwardGearRatio = 4, GetReverseGearRatio = - 4, GetMaxTorque = 300, GetMaxSpeed = 600\<rparr>
           []
           (SetDriveMode
             \<lparr>GetForwardGearRatio = 4, GetReverseGearRatio = - 4, GetMaxTorque = 300, GetMaxSpeed = 600\<rparr>
             NEUTRAL
             \<lparr>m_drive_mode = FORWARD, m_current_gear_ratio = 4, m_motorSpeed = Fin 0,
          m_motorTorque = Fin 0, m_shaftTorque = Fin 0\<rparr>))) = Fin 1 \<and>
   m_shaftTorque
     (ChSimplePowertrain_Update
        \<lparr>GetForwardGearRatio = 4, GetReverseGearRatio = - 4, GetMaxTorque = 300, GetMaxSpeed = 600\<rparr>
        0 1 (2 ^ 143)
        (Update_calls
           \<lparr>GetForwardGearRatio = 4, GetReverseGearRatio = - 4, GetMaxTorque = 300, GetMaxSpeed = 600\<rparr>
           []
           (SetDriveMode
             \<lparr>GetForwardGearRatio = 4, GetReverseGearRatio = - 4, GetMaxTorque = 300, GetMaxSpeed = 600\<rparr>
             NEUTRAL
             \<lparr>m_drive_mode = FORWARD, m_current_gear_ratio = 4, m_motorSpeed = Fin 0,
          m_motorTorque = Fin 0, m_shaftTorque = Fin 0\<rparr>))) = Fin (- 1225996432692711 / 2 ^ 41)"
  by (simp add: Update_fields double_ops round_eval)

text \<open>
  C9. \<^verbatim>\<open>Update\<close> changes nothing but the motor speed, the motor torque and the shaft
  torque: the drive mode, the cached gear ratio and every other member keep their
  values. \<^verbatim>\<open>SetDriveMode\<close> changes nothing but the drive mode and the cached gear
  ratio: the three computed outputs and every other member keep their values. This
  holds for every prior state and all arguments.
\<close>

theorem powertrain_frame:
  "m_drive_mode (ChSimplePowertrain_Update P t throttle shaft_speed s) = m_drive_mode s \<and>
   m_current_gear_ratio (ChSimplePowertrain_Update P t throttle shaft_speed s) =
     m_current_gear_ratio s \<and>
   ChSimplePowertrain.more (ChSimplePowertrain_Update P t throttle shaft_speed s) =
     ChSimplePowertrain.more s \<and>
   m_motorSpeed (SetDriveMode P mode s) = m_motorSpeed s \<and>
   m_motorTorque (SetDriveMode P mode s) = m_motorTorque s \<and>
   m_shaftTorque (SetDriveMode P mode s) = m_shaftTorque s \<and>
   ChSimplePowertrain.more (SetDriveMode P mode s) = ChSimplePowertrain.more s"
  by (cases mode) (simp_all add: ChSimplePowertrain_Update_def Let_def)

text \<open>
  C10. The result of \<^verbatim>\<open>Update\<close> does not depend on its \<^verbatim>\<open>time\<close> argument: with
  the same throttle, shaft speed and prior state, two calls at different times leave
  the powertrain in the same state.
\<close>

theorem Update_time_independent:
  "ChSimplePowertrain_Update P t1 throttle shaft_speed s =
   ChSimplePowertrain_Update P t2 throttle shaft_speed s"
  by (simp add: ChSimplePowertrain_Update_def)

section \<open>Properties of the driveline\<close>

text \<open>
  C2. For every wheel identifier, \<^verbatim>\<open>GetWheelTorque\<close> returns 0 for \<open>FRONT_LEFT\<close> and
  \<open>FRONT_RIGHT\<close>, -1 for an identifier that is none of the four wheels, and, the
  differential being the planetary constraint \<^verbatim>\<open>m_differential\<close> points to, the
  negated reaction torque on the constraint's second member for \<open>REAR_LEFT\<close> and the
  negated reaction torque on its third member for \<open>REAR_RIGHT\<close>.
\<close>

theorem GetWheelTorque_dispatch:
  "GetWheelTorque d FRONT_LEFT = Inr (Fin 0) \<and>
   GetWheelTorque d FRONT_RIGHT = Inr (Fin 0) \<and>
   GetWheelTorque d (OUT_OF_RANGE n) = Inr (Fin (- 1)) \<and>
   (m_differential d = Some differential \<longrightarrow>
      GetWheelTorque d REAR_LEFT = Inr (dneg (TorqueReactionOn2 differential)) \<and>
      GetWheelTorque d REAR_RIGHT = Inr (dneg (TorqueReactionOn3 differential)))"
  by simp

text \<open>
  The theorem for a differential that reports the reaction torques 5 and -7: the rear
  left wheel gets -5 and the rear right wheel 7.
\<close>

theorem GetWheelTorque_dispatch_witness:
  "GetWheelTorque
     \<lparr>m_dir_motor_block = \<lparr>vec_x = 1, vec_y = 0, vec_z = 0\<rparr>,
          m_dir_axle = \<lparr>vec_x = 0, vec_y = 1, vec_z = 0\<rparr>,
          m_driveshaft = None, m_differentialbox = None, m_conicalgear = None,
          m_differential = (Some
         \<lparr>planetary_shaft_1 = \<lparr>Inertia = 1\<rparr>, planetary_shaft_2 = \<lparr>Inertia = 1\<rparr>,
          planetary_shaft_3 = \<lparr>Inertia = 1\<rparr>, TransmissionRatioOrdinary = 1,
          TorqueReactionOn2 = Fin 5, TorqueReactionOn3 = Fin (- 7)\<rparr>)\<rparr>
     REAR_LEFT = Inr (Fin (- 5)) \<and>
   GetWheelTorque
     \<lparr>m_dir_motor_block = \<lparr>vec_x = 1, vec_y = 0, vec_z = 0\<rparr>,
          m_dir_axle = \<lparr>vec_x = 0, vec_y = 1, vec_z = 0\<rparr>,
          m_driveshaft = None, m_differentialbox = None, m_conicalgear = None,
          m_differential = (Some
         \<lparr>planetary_shaft_1 = \<lparr>Inertia = 1\<rparr>, planetary_shaft_2 = \<lparr>Inertia = 1\<rparr>,
          planetary_shaft_3 = \<lparr>Inertia = 1\<rparr>, TransmissionRatioOrdinary = 1,
          TorqueReactionOn2 = Fin 5, TorqueReactionOn3 = Fin (- 7)\<rparr>)\<rparr>
     REAR_RIGHT = Inr (Fin 7) \<and>
   GetWheelTorque
     \<lparr>m_dir_motor_block = \<lparr>vec_x = 1, vec_y = 0, vec_z = 0\<rparr>,
          m_dir_axle = \<lparr>vec_x = 0, vec_y = 1, vec_z = 0\<rparr>,
          m_driveshaft = None, m_differentialbox = None, m_conicalgear = None,
          m_differential = (Some
         \<lparr>planetary_shaft_1 = \<lparr>Inertia = 1\<rparr>, planetary_shaft_2 = \<lparr>Inertia = 1\<rparr>,
          planetary_shaft_3 = \<lparr>Inertia = 1\<rparr>, TransmissionRatioOrdinary = 1,
          TorqueReactionOn2 = Fin 5, TorqueReactionOn3 = Fin (- 7)\<rparr>)\<rparr>
     (OUT_OF_RANGE 4) = Inr (Fin (- 1))"
  using GetWheelTorque_dispatch
    [of "\<lparr>m_dir_motor_block = \<lparr>vec_x = 1, vec_y = 0, vec_z = 0\<rparr>,
          m_dir_axle = \<lparr>vec_x = 0, vec_y = 1, vec_z = 0\<rparr>,
          m_driveshaft = None, m_differentialbox = None, m_conicalgear = None,
          m_differential = (Some
         \<lparr>planetary_shaft_1 = \<lparr>Inertia = 1\<rparr>, planetary_shaft_2 = \<lparr>Inertia = 1\<rparr>,
          planetary_shaft_3 = \<lparr>Inertia = 1\<rparr>, TransmissionRatioOrdinary = 1,
          TorqueReactionOn2 = Fin 5, TorqueReactionOn3 = Fin (- 7)\<rparr>)\<rparr>"
        4
        "\<lparr>planetary_shaft_1 = \<lparr>Inertia = 1\<rparr>, planetary_shaft_2 = \<lparr>Inertia = 1\<rparr>,
          planetary_shaft_3 = \<lparr>Inertia = 1\<rparr>, TransmissionRatioOrdinary = 1,
          TorqueReactionOn2 = Fin 5, TorqueReactionOn3 = Fin (- 7)\<rparr>"]
  by (simp add: dneg_def)

text \<open>
  C3 (amended). When the precondition of \<^verbatim>\<open>Initialize(chassis, axleLeft, axleRight)\<close>
  holds, the call completes, and the planetary constraint it creates has the
  differential box, the left axle shaft and the right axle shaft as its three members
  and has its ordinary transmission ratio set to the value the concrete driveline
  returns from \<^verbatim>\<open>GetDifferentialRatio()\<close>.
\<close>

theorem Initialize_differential_ratio:
  assumes "Initialize_precondition chassis axle_L axle_R"
  shows "\<exists>d' ch' differential.
           ChShaftsDriveline2WD_Initialize P new_planetary chassis axle_L axle_R d =
             Inr (d', ch') \<and>
           m_differential d' = Some differential \<and>
           TransmissionRatioOrdinary differential = GetDifferentialRatio P \<and>
           Some (planetary_shaft_1 differential) = m_differentialbox d' \<and>
           Some (planetary_shaft_2 differential) = axle_L \<and>
           Some (planetary_shaft_3 differential) = axle_R"
  using assms
  by (auto simp: Initialize_precondition_def ChShaftsDriveline2WD_Initialize_def Let_def
           split: option.splits)

text \<open>The theorem for a driveline whose \<^verbatim>\<open>GetDifferentialRatio()\<close> is -1.\<close>

theorem Initialize_differential_ratio_witness:
  "Initialize_precondition
     (Some \<lparr>Identifier = 0, GetSystem = Some []\<rparr>)
     (Some \<lparr>Inertia = 2 / 5\<rparr>) (Some \<lparr>Inertia = 2 / 5\<rparr>) \<and>
   (\<exists>d' ch' differential.
      (ChShaftsDriveline2WD_Initialize
         \<lparr>GetDriveshaftInertia = 1 / 2, GetDifferentialBoxInertia = 3 / 5,
          GetConicalGearRatio = - 1 / 5, GetDifferentialRatio = - 1\<rparr>
         \<lparr>planetary_shaft_1 = \<lparr>Inertia = 1\<rparr>, planetary_shaft_2 = \<lparr>Inertia = 1\<rparr>,
          planetary_shaft_3 = \<lparr>Inertia = 1\<rparr>, TransmissionRatioOrdinary = 1,
          TorqueReactionOn2 = Fin 0, TorqueReactionOn3 = Fin 0\<rparr>
         (Some \<lparr>Identifier = 0, GetSystem = Some []\<rparr>)
         (Some \<lparr>Inertia = 2 / 5\<rparr>) (Some \<lparr>Inertia = 2 / 5\<rparr>)
         \<lparr>m_dir_motor_block = \<lparr>vec_x = 1, vec_y = 0, vec_z = 0\<rparr>,
          m_dir_axle = \<lparr>vec_x = 0, vec_y = 1, vec_z = 0\<rparr>,
          m_driveshaft = None, m_differentialbox = None, m_conicalgear = None,
          m_differential = None\<rparr>) = Inr (d', ch') \<and>
      m_differential d' = Some differential \<and>
      TransmissionRatioOrdinary differential = - 1)"
proof -
  have h: "Initialize_precondition
     (Some \<lparr>Identifier = 0, GetSystem = Some []\<rparr>)
     (Some \<lparr>Inertia = 2 / 5\<rparr>) (Some \<lparr>Inertia = 2 / 5\<rparr>)"
    by (simp add: Initialize_precondition_def)
  from Initialize_differential_ratio [OF h,
    of "\<lparr>GetDriveshaftInertia = 1 / 2, GetDifferentialBoxInertia = 3 / 5,
          GetConicalGearRatio = - 1 / 5, GetDifferentialRatio = - 1\<rparr>"
       "\<lparr>planetary_shaft_1 = \<lparr>Inertia = 1\<rparr>, planetary_shaft_2 = \<lparr>Inertia = 1\<rparr>,
          planetary_shaft_3 = \<lparr>Inertia = 1\<rparr>, TransmissionRatioOrdinary = 1,
          TorqueReactionOn2 = Fin 0, TorqueReactionOn3 = Fin 0\<rparr>"
       "\<lparr>m_dir_motor_block = \<lparr>vec_x = 1, vec_y = 0, vec_z = 0\<rparr>,
          m_dir_axle = \<lparr>vec_x = 0, vec_y = 1, vec_z = 0\<rparr>,
          m_driveshaft = None, m_differentialbox = None, m_conicalgear = None,
          m_differential = None\<rparr>"]
  show ?thesis
    using h by auto
qed

text \<open>
  C3 as stated fails for a driveline whose \<^verbatim>\<open>GetDifferentialRatio()\<close> is -2:
  \<^verbatim>\<open>Initialize\<close> completes and the ordinary ratio of the constraint is -2, not -1.
\<close>

theorem Initialize_ratio_not_fixed_counterexample:
  "\<not> isl (ChShaftsDriveline2WD_Initialize
         \<lparr>GetDriveshaftInertia = 1 / 2, GetDifferentialBoxInertia = 3 / 5,
          GetConicalGearRatio = - 1 / 5, GetDifferentialRatio = - 2\<rparr>
         \<lparr>planetary_shaft_1 = \<lparr>Inertia = 1\<rparr>, planetary_shaft_2 = \<lparr>Inertia = 1\<rparr>,
          planetary_shaft_3 = \<lparr>Inertia = 1\<rparr>, TransmissionRatioOrdinary = 1,
          TorqueReactionOn2 = Fin 0, TorqueReactionOn3 = Fin 0\<rparr>
         (Some \<lparr>Identifier = 0, GetSystem = Some []\<rparr>)
         (Some \<lparr>Inertia = 2 / 5\<rparr>) (Some \<lparr>Inertia = 2 / 5\<rparr>)
         \<lparr>m_dir_motor_block = \<lparr>vec_x = 1, vec_y = 0, vec_z = 0\<rparr>,
          m_dir_axle = \<lparr>vec_x = 0, vec_y = 1, vec_z = 0\<rparr>,
          m_driveshaft = None, m_differentialbox = None, m_conicalgear = None,
          m_differential = None\<rparr>) \<and>
   map_option TransmissionRatioOrdinary
     (m_differential (fst (projr (ChShaftsDriveline2WD_Initialize
         \<lparr>GetDriveshaftInertia = 1 / 2, GetDifferentialBoxInertia = 3 / 5,
          GetConicalGearRatio = - 1 / 5, GetDifferentialRatio = - 2\<rparr>
         \<lparr>planetary_shaft_1 = \<lparr>Inertia = 1\<rparr>, planetary_shaft_2 = \<lparr>Inertia = 1\<rparr>,
          planetary_shaft_3 = \<lparr>Inertia = 1\<rparr>, TransmissionRatioOrdinary = 1,
          TorqueReactionOn2 = Fin 0, TorqueReactionOn3 = Fin 0\<rparr>
         (Some \<lparr>Identifier = 0, GetSystem = Some []\<rparr>)
         (Some \<lparr>Inertia = 2 / 5\<rparr>) (Some \<lparr>Inertia = 2 / 5\<rparr>)
         \<lparr>m_dir_motor_block = \<lparr>vec_x = 1, vec_y = 0, vec_z = 0\<rparr>,
          m_dir_axle = \<lparr>vec_x = 0, vec_y = 1, vec_z = 0\<rparr>,
          m_driveshaft = None, m_differentialbox = None, m_conicalgear = None,
          m_differential = None\<rparr>)))) = Some (- 2) \<and>
   (- 2 :: real) \<noteq> - 1"
  by (simp add: ChShaftsDriveline2WD_Initialize_def Let_def)

text \<open>
  C8. \<^verbatim>\<open>Initialize(chassis, axleLeft, axleRight)\<close> has the precondition that chassis,
  axleLeft and axleRight are non-null and the chassis is registered with a physical
  system. Under the precondition no assertion fails and the call completes; when the
  precondition is violated the call ends in an assertion failure and nothing is
  initialized.
\<close>

theorem Initialize_asserts:
  "(Initialize_precondition chassis axle_L axle_R \<longrightarrow>
      (\<exists>d' ch'. ChShaftsDriveline2WD_Initialize P new_planetary chassis axle_L axle_R d =
         Inr (d', ch'))) \<and>
   (\<not> Initialize_precondition chassis axle_L axle_R \<longrightarrow>
      ChShaftsDriveline2WD_Initialize P new_planetary chassis axle_L axle_R d =
        Inl AssertionFailed)"
  by (auto simp: Initialize_precondition_def ChShaftsDriveline2WD_Initialize_def Let_def
           split: option.splits)

text \<open>
  The theorem for a registered chassis with both axle shafts (the call completes), for
  a missing right axle shaft and for a chassis that is in no system (assertion
  failures).
\<close>

theorem Initialize_asserts_witness:
  "Initialize_precondition
     (Some \<lparr>Identifier = 0, GetSystem = Some []\<rparr>)
     (Some \<lparr>Inertia = 2 / 5\<rparr>) (Some \<lparr>Inertia = 2 / 5\<rparr>) \<and>
   \<not> isl (ChShaftsDriveline2WD_Initialize
         \<lparr>GetDriveshaftInertia = 1 / 2, GetDifferentialBoxInertia = 3 / 5,
          GetConicalGearRatio = - 1 / 5, GetDifferentialRatio = - 1\<rparr>
         \<lparr>planetary_shaft_1 = \<lparr>Inertia = 1\<rparr>, planetary_shaft_2 = \<lparr>Inertia = 1\<rparr>,
          planetary_shaft_3 = \<lparr>Inertia = 1\<rparr>, TransmissionRatioOrdinary = 1,
          TorqueReactionOn2 = Fin 0, TorqueReactionOn3 = Fin 0\<rparr>
         (Some \<lparr>Identifier = 0, GetSystem = Some []\<rparr>)
         (Some \<lparr>Inertia = 2 / 5\<rparr>) (Some \<lparr>Inertia = 2 / 5\<rparr>)
         \<lparr>m_dir_motor_block = \<lparr>vec_x = 1, vec_y = 0, vec_z = 0\<rparr>,
          m_dir_axle = \<lparr>vec_x = 0, vec_y = 1, vec_z = 0\<rparr>,
          m_driveshaft = None, m_differentialbox = None, m_conicalgear = None,
          m_differential = None\<rparr>) \<and>
   \<not> Initialize_precondition
     (Some \<lparr>Identifier = 0, GetSystem = Some []\<rparr>)
     (Some \<lparr>Inertia = 2 / 5\<rparr>) None \<and>
   (ChShaftsDriveline2WD_Initialize
         \<lparr>GetDriveshaftInertia = 1 / 2, GetDifferentialBoxInertia = 3 / 5,
          GetConicalGearRatio = - 1 / 5, GetDifferentialRatio = - 1\<rparr>
         \<lparr>planetary_shaft_1 = \<lparr>Inertia = 1\<rparr>, planetary_shaft_2 = \<lparr>Inertia = 1\<rparr>,
          planetary_shaft_3 = \<lparr>Inertia = 1\<rparr>, TransmissionRatioOrdinary = 1,
          TorqueReactionOn2 = Fin 0, TorqueReactionOn3 = Fin 0\<rparr>
         (Some \<lparr>Identifier = 0, GetSystem = Some []\<rparr>)
         (Some \<lparr>Inertia = 2 / 5\<rparr>) None
         \<lparr>m_dir_motor_block = \<lparr>vec_x = 1, vec_y = 0, vec_z = 0\<rparr>,
          m_dir_axle = \<lparr>vec_x = 0, vec_y = 1, vec_z = 0\<rparr>,
          m_driveshaft = None, m_differentialbox = None, m_conicalgear = None,
          m_differential = None\<rparr>) = Inl AssertionFailed \<and>
   \<not> Initialize_precondition
     (Some \<lparr>Identifier = 0, GetSystem = None\<rparr>)
     (Some \<lparr>Inertia = 2 / 5\<rparr>) (Some \<lparr>Inertia = 2 / 5\<rparr>) \<and>
   (ChShaftsDriveline2WD_Initialize
         \<lparr>GetDriveshaftInertia = 1 / 2, GetDifferentialBoxInertia = 3 / 5,
          GetConicalGearRatio = - 1 / 5, GetDifferentialRatio = - 1\<rparr>
         \<lparr>planetary_shaft_1 = \<lparr>Inertia = 1\<rparr>, planetary_shaft_2 = \<lparr>Inertia = 1\<rparr>,
          planetary_shaft_3 = \<lparr>Inertia = 1\<rparr>, TransmissionRatioOrdinary = 1,
          TorqueReactionOn2 = Fin 0, TorqueReactionOn3 = Fin 0\<rparr>
         (Some \<lparr>Identifier = 0, GetSystem = None\<rparr>)
         (Some \<lparr>Inertia = 2 / 5\<rparr>) (Some \<lparr>Inertia = 2 / 5\<rparr>)
         \<lparr>m_dir_motor_block = \<lparr>vec_x = 1, vec_y = 0, vec_z = 0\<rparr>,
          m_dir_axle = \<lparr>vec_x = 0, vec_y = 1, vec_z = 0\<rparr>,
          m_driveshaft = None, m_differentialbox = None, m_conicalgear = None,
          m_differential = None\<rparr>) = Inl AssertionFailed"
  using
    Initialize_asserts
      [of "(Some \<lparr>Identifier = 0, GetSystem = Some []\<rparr>)"
          "(Some \<lparr>Inertia = 2 / 5\<rparr>)" "(Some \<lparr>Inertia = 2 / 5\<rparr>)"
          "\<lparr>GetDriveshaftInertia = 1 / 2, GetDifferentialBoxInertia = 3 / 5,
          GetConicalGearRatio = - 1 / 5, GetDifferentialRatio = - 1\<rparr>"
          "\<lparr>planetary_shaft_1 = \<lparr>Inertia = 1\<rparr>, planetary_shaft_2 = \<lparr>Inertia = 1\<rparr>,
          planetary_shaft_3 = \<lparr>Inertia = 1\<rparr>, TransmissionRatioOrdinary = 1,
          TorqueReactionOn2 = Fin 0, TorqueReactionOn3 = Fin 0\<rparr>"
          "\<lparr>m_dir_motor_block = \<lparr>vec_x = 1, vec_y = 0, vec_z = 0\<rparr>,
          m_dir_axle = \<lparr>vec_x = 0, vec_y = 1, vec_z = 0\<rparr>,
          m_driveshaft = None, m_differentialbox = None, m_conicalgear = None,
          m_differential = None\<rparr>"]
    Initialize_asserts
      [of "(Some \<lparr>Identifier = 0, GetSystem = Some []\<rparr>)"
          "(Some \<lparr>Inertia = 2 / 5\<rparr>)" None
          "\<lparr>GetDriveshaftInertia = 1 / 2, GetDifferentialBoxInertia = 3 / 5,
          GetConicalGearRatio = - 1 / 5, GetDifferentialRatio = - 1\<rparr>"
          "\<lparr>planetary_shaft_1 = \<lparr>Inertia = 1\<rparr>, planetary_shaft_2 = \<lparr>Inertia = 1\<rparr>,
          planetary_shaft_3 = \<lparr>Inertia = 1\<rparr>, TransmissionRatioOrdinary = 1,
          TorqueReactionOn2 = Fin 0, TorqueReactionOn3 = Fin 0\<rparr>"
          "\<lparr>m_dir_motor_block = \<lparr>vec_x = 1, vec_y = 0, vec_z = 0\<rparr>,
          m_dir_axle = \<lparr>vec_x = 0, vec_y = 1, vec_z = 0\<rparr>,
          m_driveshaft = None, m_differentialbox = None, m_conicalgear = None,
          m_differential = None\<rparr>"]
    Initialize_asserts
      [of "(Some \<lparr>Identifier = 0, GetSystem = None\<rparr>)"
          "(Some \<lparr>Inertia = 2 / 5\<rparr>)" "(Some \<lparr>Inertia = 2 / 5\<rparr>)"
          "\<lparr>GetDriveshaftInertia = 1 / 2, GetDifferentialBoxInertia = 3 / 5,
          GetConicalGearRatio = - 1 / 5, GetDifferentialRatio = - 1\<rparr>"
          "\<lparr>planetary_shaft_1 = \<lparr>Inertia = 1\<rparr>, planetary_shaft_2 = \<lparr>Inertia = 1\<rparr>,
          planetary_shaft_3 = \<lparr>Inertia = 1\<rparr>, TransmissionRatioOrdinary = 1,
          TorqueReactionOn2 = Fin 0, TorqueReactionOn3 = Fin 0\<rparr>"
          "\<lparr>m_dir_motor_block = \<lparr>vec_x = 1, vec_y = 0, vec_z = 0\<rparr>,
          m_dir_axle = \<lparr>vec_x = 0, vec_y = 1, vec_z = 0\<rparr>,
          m_driveshaft = None, m_differentialbox = None, m_conicalgear = None,
          m_differential = None\<rparr>"]
  by (auto simp: Initialize_precondition_def)

section \<open>Properties of the vehicle assembly\<close>

text \<open>
  C4. For every wheel identifier that is none of the four wheels, \<^verbatim>\<open>GetWheelBody\<close>,
  \<^verbatim>\<open>GetWheelPos\<close>, \<^verbatim>\<open>GetWheelRot\<close>, \<^verbatim>\<open>GetWheelLinVel\<close> and \<^verbatim>\<open>GetWheelAngVel\<close>
  return the body, position, rotation, linear velocity and angular velocity of the
  RIGHT spindle of the front suspension, which is also what they return for
  \<open>FRONT_RIGHT\<close>, and \<^verbatim>\<open>GetWheelOmega\<close>, \<^verbatim>\<open>GetSpringForce\<close> and \<^verbatim>\<open>GetSpringLength\<close>
  return the finite value -1, whatever the state of the suspensions. Every accessor
  has a branch for such an identifier and returns a value there.
\<close>

theorem invalid_wheel_fallback:
  "GetWheelBody v (OUT_OF_RANGE n) = GetSpindle (m_front_susp v) RIGHT \<and>
   GetWheelPos v (OUT_OF_RANGE n) = GetSpindlePos (m_front_susp v) RIGHT \<and>
   GetWheelRot v (OUT_OF_RANGE n) = GetSpindleRot (m_front_susp v) RIGHT \<and>
   GetWheelLinVel v (OUT_OF_RANGE n) = GetSpindleLinVel (m_front_susp v) RIGHT \<and>
   GetWheelAngVel v (OUT_OF_RANGE n) = GetSpindleAngVel (m_front_susp v) RIGHT \<and>
   GetWheelBody v (OUT_OF_RANGE n) = GetWheelBody v FRONT_RIGHT \<and>
   GetWheelPos v (OUT_OF_RANGE n) = GetWheelPos v FRONT_RIGHT \<and>
   GetWheelRot v (OUT_OF_RANGE n) = GetWheelRot v FRONT_RIGHT \<and>
   GetWheelLinVel v (OUT_OF_RANGE n) = GetWheelLinVel v FRONT_RIGHT \<and>
   GetWheelAngVel v (OUT_OF_RANGE n) = GetWheelAngVel v FRONT_RIGHT \<and>
   GetWheelOmega v (OUT_OF_RANGE n) = Fin (- 1) \<and>
   GetSpringForce v (OUT_OF_RANGE n) = Fin (- 1) \<and>
   GetSpringLength v (OUT_OF_RANGE n) = Fin (- 1)"
  by simp

text \<open>
  C6. For every time, throttle, steering, braking and tire forces, one call of the
  vehicle's \<^verbatim>\<open>Update\<close> makes ten calls and no more: one \<^verbatim>\<open>ApplySteering\<close>, on the
  front suspension, with displacement \<open>0.08 * steering\<close>, and none on the rear
  suspension; one \<^verbatim>\<open>Update\<close> of the powertrain with the time and the throttle; one
  \<^verbatim>\<open>ApplyTireForce\<close> per wheel, with that wheel's tire force, on the suspension and
  side whose spindle is the body of that wheel; one \<^verbatim>\<open>ApplyBrakeModulation\<close> per
  brake, all four with the same braking value.
\<close>

theorem vehicle_Update_single_pass:
  "filter is_ApplySteering
     (HMMWV_VehicleSolidAxle_Update time throttle steering braking tire_forces) =
     [ApplySteering front_susp (0.08 * steering)] \<and>
   ApplySteering rear_susp displ \<notin>
     set (HMMWV_VehicleSolidAxle_Update time throttle steering braking tire_forces) \<and>
   filter is_Powertrain_Update
     (HMMWV_VehicleSolidAxle_Update time throttle steering braking tire_forces) =
     [Powertrain_Update time throttle] \<and>
   filter is_ApplyTireForce
     (HMMWV_VehicleSolidAxle_Update time throttle steering braking tire_forces) =
     [ApplyTireForce front_susp RIGHT (tire_forces FRONT_RIGHT),
      ApplyTireForce front_susp LEFT (tire_forces FRONT_LEFT),
      ApplyTireForce rear_susp RIGHT (tire_forces REAR_RIGHT),
      ApplyTireForce rear_susp LEFT (tire_forces REAR_LEFT)] \<and>
   filter is_ApplyBrakeModulation
     (HMMWV_VehicleSolidAxle_Update time throttle steering braking tire_forces) =
     [ApplyBrakeModulation front_right_brake braking,
      ApplyBrakeModulation front_left_brake braking,
      ApplyBrakeModulation rear_right_brake braking,
      ApplyBrakeModulation rear_left_brake braking] \<and>
   length (HMMWV_VehicleSolidAxle_Update time throttle steering braking tire_forces) = 10 \<and>
   GetSpindle (suspension_of v front_susp) RIGHT = GetWheelBody v FRONT_RIGHT \<and>
   GetSpindle (suspension_of v front_susp) LEFT = GetWheelBody v FRONT_LEFT \<and>
   GetSpindle (suspension_of v rear_susp) RIGHT = GetWheelBody v REAR_RIGHT \<and>
   GetSpindle (suspension_of v rear_susp) LEFT = GetWheelBody v REAR_LEFT"
  by (simp add: HMMWV_VehicleSolidAxle_Update_def suspension_of_def)

section \<open>Properties of the hardpoints\<close>

text \<open>
  C7. For every suspension variant (every table \<open>getLocation\<close>, over any type of point
  identifiers) and every hardpoint: the left-side point has the x and z coordinates of
  the right-side point of the table and the negated y coordinate, and the right-side
  point is the point of the table.
\<close>

theorem left_hardpoint_mirrored:
  "vec_x (side_location getLocation LEFT which) = vec_x (getLocation which) \<and>
   vec_y (side_location getLocation LEFT which) = - vec_y (getLocation which) \<and>
   vec_z (side_location getLocation LEFT which) = vec_z (getLocation which) \<and>
   side_location getLocation RIGHT which = getLocation which"
  by (simp add: side_location_def mirror_y_def)

end
